theory Spec2Isabelle
  imports Complex_Main
begin

section \<open>Python values, exceptions and the pandas boundary\<close>

text \<open>
  The program is one Python module, \<^verbatim>\<open>demo_data.py\<close>: seventeen table generators driven
  by the global \<^verbatim>\<open>random\<close> module, a schema registry, \<^verbatim>\<open>validate_table\<close> and the driver
  \<^verbatim>\<open>generate_demo_data\<close>. Exceptions are values of a sum type, the state of the random
  module is passed explicitly, and every \<^verbatim>\<open>for\<close> loop is a recursion over the list it runs
  through. Python floats are modelled by real numbers: arithmetic is exact, and
  \<^verbatim>\<open>round(x, n)\<close> is decimal rounding to the nearest value, ties to even.
\<close>

datatype py_error = IndexError | KeyError | ValueError | StopIteration

definition bindE :: "'e + 'a \<Rightarrow> ('a \<Rightarrow> 'e + 'b) \<Rightarrow> 'e + 'b" where
  "bindE m f = (case m of Inl e \<Rightarrow> Inl e | Inr x \<Rightarrow> f x)"

fun for_each :: "('a \<Rightarrow> 's \<Rightarrow> 'e + 's) \<Rightarrow> 'a list \<Rightarrow> 's \<Rightarrow> 'e + 's" where
  "for_each body [] s = Inr s"
| "for_each body (x # xs) s = bindE (body x s) (for_each body xs)"

datatype date = Date (year: int) (month: int) (day: int)

datatype time = Time (hour: int) (minute: int) (second: int)

datatype datetime = DateTime (date_part: date) (time_part: time)

datatype cell =
    CNull
  | CStr string
  | CInt int
  | CFloat real
  | CBool bool
  | CDate date
  | CDateTime datetime
  | CTime time

text \<open>
  A \<^verbatim>\<open>pandas.DataFrame\<close>: the length of its index and its columns in order, each a name
  and its cells. \<^verbatim>\<open>df[col]\<close> reads the first column of that name and \<^verbatim>\<open>df[col] = v\<close>
  replaces it where it stands.
\<close>

record dataframe =
  df_len :: nat
  df_cols :: "(string \<times> cell list) list"

definition df_columns :: "dataframe \<Rightarrow> string list" where
  "df_columns df = map fst (df_cols df)"

definition df_get :: "dataframe \<Rightarrow> string \<Rightarrow> cell list option" where
  "df_get df col = map_of (df_cols df) col"

fun set_col :: "string \<Rightarrow> cell list \<Rightarrow> (string \<times> cell list) list \<Rightarrow> (string \<times> cell list) list" where
  "set_col col v [] = [(col, v)]"
| "set_col col v ((c, w) # cs) = (if c = col then (c, v) # cs else (c, w) # set_col col v cs)"

definition df_set :: "dataframe \<Rightarrow> string \<Rightarrow> cell list \<Rightarrow> dataframe" where
  "df_set df col v = df\<lparr>df_cols := set_col col v (df_cols df)\<rparr>"

text \<open>
  The pandas calls of \<^verbatim>\<open>validate_table\<close> are library code, taken as a parameter: each
  conversion of a column either returns the converted cells or raises, and \<open>Inl msg\<close>
  carries \<^verbatim>\<open>str(e)\<close> of the exception. \<open>set_iter\<close> is the order in which this Python
  process iterates over (and prints) a set of strings built from the given elements.
\<close>

record pandas =
  to_datetime :: "cell list \<Rightarrow> string + cell list"
  dt_date :: "cell list \<Rightarrow> string + cell list"
  astype_bool :: "cell list \<Rightarrow> string + cell list"
  to_numeric_coerce :: "cell list \<Rightarrow> string + cell list"
  fillna :: "cell \<Rightarrow> cell list \<Rightarrow> string + cell list"
  astype_int :: "cell list \<Rightarrow> string + cell list"
  astype_float :: "cell list \<Rightarrow> string + cell list"
  astype_str :: "cell list \<Rightarrow> string + cell list"
  isnull :: "cell \<Rightarrow> bool"
  set_iter :: "string list \<Rightarrow> string list"

section \<open>The schema registry\<close>

record schema =
  required :: "(string \<times> string) list"

definition SCHEMAS :: "(string \<times> schema) list" where
  "SCHEMAS = [
    (''dim_formulations'', \<lparr>required = [
      (''formulation_id'', ''str''), (''product_name'', ''str''), (''product_category'', ''str''),
      (''version'', ''str''), (''status'', ''str''), (''created_date'', ''date''),
      (''expected_yield_percentage'', ''float''), (''production_cost_per_unit'', ''float''),
      (''target_cycle_time_hours'', ''float''), (''quality_standards'', ''str'')]\<rparr>),
    (''fact_production_batches'', \<lparr>required = [
      (''batch_id'', ''str''), (''formulation_id'', ''str''), (''production_date'', ''date''),
      (''planned_quantity'', ''int''), (''actual_quantity'', ''int''),
      (''yield_percentage'', ''float''), (''status'', ''str''), (''equipment_id'', ''str''),
      (''supervisor_id'', ''str''), (''quality_score'', ''float''), (''total_cost'', ''float''),
      (''completion_time_hours'', ''float'')]\<rparr>),
    (''dim_raw_materials'', \<lparr>required = [
      (''material_id'', ''str''), (''material_name'', ''str''), (''category'', ''str''),
      (''supplier_id'', ''str''), (''unit_of_measure'', ''str''), (''unit_cost'', ''float''),
      (''min_stock_level'', ''int''), (''current_stock'', ''int''), (''shelf_life_days'', ''int''),
      (''storage_requirements'', ''str'')]\<rparr>),
    (''fact_inventory_transactions'', \<lparr>required = [
      (''transaction_id'', ''str''), (''transaction_date'', ''date''),
      (''transaction_type'', ''str''), (''sku'', ''str''), (''batch_id'', ''str''),
      (''quantity'', ''int''), (''unit_cost'', ''float''), (''total_value'', ''float''),
      (''location_id'', ''str''), (''reference_document'', ''str''), (''employee_id'', ''str'')]\<rparr>),
    (''dim_inventory_items'', \<lparr>required = [
      (''sku'', ''str''), (''item_name'', ''str''), (''category'', ''str''),
      (''unit_of_measure'', ''str''), (''current_stock'', ''int''), (''min_stock_level'', ''int''),
      (''max_stock_level'', ''int''), (''average_unit_cost'', ''float''),
      (''total_value'', ''float''), (''last_restock_date'', ''date''), (''expiry_date'', ''date''),
      (''storage_location'', ''str'')]\<rparr>),
    (''fact_sales_transactions'', \<lparr>required = [
      (''transaction_id'', ''str''), (''transaction_date'', ''datetime''),
      (''customer_id'', ''str''), (''sku'', ''str''), (''quantity'', ''int''),
      (''unit_price'', ''float''), (''total_amount'', ''float''), (''discount_amount'', ''float''),
      (''tax_amount'', ''float''), (''net_amount'', ''float''), (''payment_method'', ''str''),
      (''payment_status'', ''str''), (''sales_channel'', ''str''), (''employee_id'', ''str'')]\<rparr>),
    (''dim_customers'', \<lparr>required = [
      (''customer_id'', ''str''), (''customer_name'', ''str''), (''customer_type'', ''str''),
      (''email'', ''str''), (''phone'', ''str''), (''address'', ''str''), (''city'', ''str''),
      (''country'', ''str''), (''customer_since'', ''date''), (''loyalty_points'', ''int''),
      (''total_purchases'', ''float''), (''last_purchase_date'', ''date'')]\<rparr>),
    (''dim_employees'', \<lparr>required = [
      (''employee_id'', ''str''), (''first_name'', ''str''), (''last_name'', ''str''),
      (''email'', ''str''), (''phone'', ''str''), (''department'', ''str''), (''position'', ''str''),
      (''hire_date'', ''date''), (''salary'', ''float''), (''employment_type'', ''str''),
      (''supervisor_id'', ''str''), (''shift_pattern'', ''str''), (''active'', ''bool'')]\<rparr>),
    (''fact_attendance'', \<lparr>required = [
      (''attendance_id'', ''str''), (''employee_id'', ''str''), (''date'', ''date''),
      (''shift_start'', ''time''), (''shift_end'', ''time''), (''actual_start'', ''time''),
      (''actual_end'', ''time''), (''hours_worked'', ''float''), (''overtime_hours'', ''float''),
      (''attendance_status'', ''str''), (''remarks'', ''str'')]\<rparr>),
    (''fact_financial_transactions'', \<lparr>required = [
      (''transaction_id'', ''str''), (''transaction_date'', ''date''),
      (''transaction_type'', ''str''), (''account_code'', ''str''), (''description'', ''str''),
      (''debit_amount'', ''float''), (''credit_amount'', ''float''), (''balance'', ''float''),
      (''reference_number'', ''str''), (''vendor_customer_id'', ''str''),
      (''payment_method'', ''str''), (''status'', ''str'')]\<rparr>),
    (''dim_accounts'', \<lparr>required = [
      (''account_code'', ''str''), (''account_name'', ''str''), (''account_type'', ''str''),
      (''category'', ''str''), (''normal_balance'', ''str''), (''opening_balance'', ''float''),
      (''current_balance'', ''float''), (''parent_account'', ''str''), (''is_active'', ''bool'')]\<rparr>),
    (''fact_ecommerce_orders'', \<lparr>required = [
      (''order_id'', ''str''), (''order_date'', ''datetime''), (''customer_id'', ''str''),
      (''total_amount'', ''float''), (''shipping_amount'', ''float''), (''tax_amount'', ''float''),
      (''discount_amount'', ''float''), (''net_amount'', ''float''), (''payment_status'', ''str''),
      (''order_status'', ''str''), (''shipping_method'', ''str''), (''tracking_number'', ''str''),
      (''website_session_id'', ''str'')]\<rparr>),
    (''fact_website_traffic'', \<lparr>required = [
      (''session_id'', ''str''), (''timestamp'', ''datetime''), (''page_url'', ''str''),
      (''referrer'', ''str''), (''device_type'', ''str''), (''location'', ''str''),
      (''session_duration_seconds'', ''int''), (''page_views'', ''int''), (''converted'', ''bool''),
      (''customer_id'', ''str'')]\<rparr>),
    (''fact_production_analytics'', \<lparr>required = [
      (''analytics_id'', ''str''), (''date'', ''date''), (''batch_id'', ''str''),
      (''equipment_id'', ''str''), (''oee_percentage'', ''float''), (''yield_rate'', ''float''),
      (''cycle_time_hours'', ''float''), (''downtime_hours'', ''float''),
      (''quality_score'', ''float''), (''cost_variance'', ''float''),
      (''energy_consumption'', ''float''), (''scrap_percentage'', ''float'')]\<rparr>),
    (''fact_inventory_analytics'', \<lparr>required = [
      (''analytics_id'', ''str''), (''date'', ''date''), (''sku'', ''str''), (''category'', ''str''),
      (''stock_turnover_rate'', ''float''), (''days_inventory_outstanding'', ''float''),
      (''stockout_frequency'', ''float''), (''holding_cost_percentage'', ''float''),
      (''abc_classification'', ''str''), (''excess_stock_value'', ''float''),
      (''stockout_value'', ''float''), (''forecast_accuracy'', ''float'')]\<rparr>),
    (''dim_tenants'', \<lparr>required = [
      (''tenant_id'', ''str''), (''tenant_name'', ''str''), (''business_type'', ''str''),
      (''industry'', ''str''), (''subscription_plan'', ''str''), (''subscription_start'', ''date''),
      (''subscription_end'', ''date''), (''max_users'', ''int''), (''active_users'', ''int''),
      (''monthly_fee'', ''float''), (''status'', ''str''), (''contact_email'', ''str''),
      (''contact_phone'', ''str'')]\<rparr>),
    (''fact_audit_logs'', \<lparr>required = [
      (''log_id'', ''str''), (''timestamp'', ''datetime''), (''tenant_id'', ''str''),
      (''user_id'', ''str''), (''user_role'', ''str''), (''module'', ''str''), (''action'', ''str''),
      (''resource'', ''str''), (''resource_id'', ''str''), (''ip_address'', ''str''),
      (''success'', ''bool''), (''details'', ''str'')]\<rparr>)]"

section \<open>The validator\<close>

record report =
  row_count :: "nat option"
  errors :: "string list"
  warnings :: "string list"
  ok :: bool

text \<open>\<^verbatim>\<open>str\<close> of a non-negative integer, and of a set of strings as this process prints it.\<close>

fun str_nat :: "nat \<Rightarrow> string" where
  "str_nat n = (if n < 10 then [''0123456789'' ! n] else str_nat (n div 10) @ [''0123456789'' ! (n mod 10)])"

declare str_nat.simps [simp del]

fun join :: "string \<Rightarrow> string list \<Rightarrow> string" where
  "join sep [] = []"
| "join sep [x] = x"
| "join sep (x # y # xs) = x @ sep @ join sep (y # xs)"

definition set_repr :: "pandas \<Rightarrow> string list \<Rightarrow> string" where
  "set_repr P xs = ''{'' @ join '', '' (map (\<lambda>x. [CHR 0x27] @ x @ [CHR 0x27]) (set_iter P (remdups xs))) @ ''}''"

text \<open>
  The body of the \<^verbatim>\<open>try\<close> block: the conversion chosen by the declared type. Any type
  string other than the five named ones, \<^verbatim>\<open>"time"\<close> among them, takes the last branch.
\<close>

definition convert :: "pandas \<Rightarrow> string \<Rightarrow> cell list \<Rightarrow> string + cell list" where
  "convert P expected_type c =
     (if expected_type = ''date'' then bindE (to_datetime P c) (dt_date P)
      else if expected_type = ''datetime'' then to_datetime P c
      else if expected_type = ''bool'' then astype_bool P c
      else if expected_type = ''int'' then
        bindE (to_numeric_coerce P c) (\<lambda>c. bindE (fillna P (CInt 0) c) (astype_int P))
      else if expected_type = ''float'' then
        bindE (to_numeric_coerce P c) (\<lambda>c. bindE (fillna P (CFloat 0) c) (astype_float P))
      else astype_str P c)"

text \<open>
  One round of \<^verbatim>\<open>for col, expected_type in schema["required"].items()\<close>: a column that is
  present is replaced by its conversion, or, when the conversion raises, left as it is
  with one more entry in the error list.
\<close>

definition check_type :: "pandas \<Rightarrow> string \<times> string \<Rightarrow> dataframe \<times> string list \<Rightarrow> dataframe \<times> string list" where
  "check_type P ct s =
     (case ct of (col, expected_type) \<Rightarrow>
      (case s of (df, errs) \<Rightarrow>
        (case df_get df col of
           None \<Rightarrow> (df, errs)
         | Some c \<Rightarrow>
            (case convert P expected_type c of
               Inr c' \<Rightarrow> (df_set df col c', errs)
             | Inl e \<Rightarrow> (df, errs @ [''Type conversion failed for '' @ col @ '': '' @ e])))))"

definition null_warnings :: "pandas \<Rightarrow> dataframe \<Rightarrow> string list \<Rightarrow> string list" where
  "null_warnings P df required_cols =
     concat (map (\<lambda>col.
        (case df_get df col of
           None \<Rightarrow> []
         | Some c \<Rightarrow>
            if list_ex (isnull P) c
            then [''Column '' @ col @ '' has '' @ str_nat (length (filter (isnull P) c)) @ '' null values'']
            else []))
        (set_iter P (remdups required_cols)))"

definition validate_table :: "pandas \<Rightarrow> string \<Rightarrow> dataframe \<Rightarrow> dataframe \<times> report" where
  "validate_table P table_name df =
     (case map_of SCHEMAS table_name of
        None \<Rightarrow> (df, \<lparr>row_count = None, errors = [''Unknown table''], warnings = [], ok = False\<rparr>)
      | Some schema \<Rightarrow>
         (let required_cols = map fst (required schema);
              actual_cols = df_columns df;
              missing_cols = filter (\<lambda>c. c \<notin> set actual_cols) required_cols;
              extra_cols = filter (\<lambda>c. c \<notin> set required_cols) actual_cols;
              errs0 = (if missing_cols \<noteq> [] then [''Missing columns: '' @ set_repr P missing_cols] else []);
              warns0 = (if extra_cols \<noteq> [] then [''Extra columns: '' @ set_repr P extra_cols] else []);
              (df', errs1) = fold (check_type P) (required schema) (df, errs0);
              warns1 = warns0 @ null_warnings P df' required_cols
          in (df', \<lparr>row_count = Some (df_len df'), errors = errs1, warnings = warns1,
                     ok = (length errs1 = 0)\<rparr>)))"

text \<open>What the type loop leaves in a column.\<close>

definition converted_col :: "pandas \<Rightarrow> (string \<times> string) list \<Rightarrow> dataframe \<Rightarrow> string \<Rightarrow> cell list option" where
  "converted_col P req df col =
     (case df_get df col of
        None \<Rightarrow> None
      | Some c \<Rightarrow>
         (case map_of req col of
            None \<Rightarrow> Some c
          | Some expected_type \<Rightarrow>
             (case convert P expected_type c of Inr c' \<Rightarrow> Some c' | Inl e \<Rightarrow> Some c)))"

definition conversion_errors :: "pandas \<Rightarrow> (string \<times> string) list \<Rightarrow> dataframe \<Rightarrow> string list" where
  "conversion_errors P req df =
     concat (map (\<lambda>(col, expected_type).
        (case df_get df col of
           None \<Rightarrow> []
         | Some c \<Rightarrow>
            (case convert P expected_type c of
               Inr c' \<Rightarrow> []
             | Inl e \<Rightarrow> [''Type conversion failed for '' @ col @ '': '' @ e]))) req)"

definition missing_cols_of :: "schema \<Rightarrow> dataframe \<Rightarrow> string list" where
  "missing_cols_of schema df = filter (\<lambda>c. c \<notin> set (df_columns df)) (map fst (required schema))"

definition str_int :: "int \<Rightarrow> string" where
  "str_int i = (if i < 0 then ''-'' @ str_nat (nat (- i)) else str_nat (nat i))"

definition zfill :: "nat \<Rightarrow> string \<Rightarrow> string" where
  "zfill w s = replicate (w - length s) (CHR ''0'') @ s"

definition fmt_0d :: "nat \<Rightarrow> int \<Rightarrow> string" where
  "fmt_0d w i = (if i < 0 then ''-'' @ zfill (w - 1) (str_nat (nat (- i))) else zfill w (str_nat (nat i)))"

definition str_date :: "date \<Rightarrow> string" where
  "str_date d = fmt_0d 4 (year d) @ ''-'' @ fmt_0d 2 (month d) @ ''-'' @ fmt_0d 2 (day d)"

definition str_time :: "time \<Rightarrow> string" where
  "str_time t = fmt_0d 2 (hour t) @ '':'' @ fmt_0d 2 (minute t) @ '':'' @ fmt_0d 2 (second t)"

definition midnight :: time where
  "midnight = Time 0 0 0"

fun map_cells :: "(cell \<Rightarrow> string + cell) \<Rightarrow> cell list \<Rightarrow> string + cell list" where
  "map_cells f [] = Inr []"
| "map_cells f (c # cs) = bindE (f c) (\<lambda>c'. bindE (map_cells f cs) (\<lambda>cs'. Inr (c' # cs')))"

definition strict_to_datetime :: "cell \<Rightarrow> string + cell" where
  "strict_to_datetime c =
     (case c of
        CNull \<Rightarrow> Inr CNull
      | CDate d \<Rightarrow> Inr (CDateTime (DateTime d midnight))
      | CDateTime t \<Rightarrow> Inr (CDateTime t)
      | CStr s \<Rightarrow> Inl (''Unknown datetime string format, unable to parse: '' @ s)
      | _ \<Rightarrow> Inl ''not convertible to datetime'')"

definition strict_dt_date :: "cell \<Rightarrow> string + cell" where
  "strict_dt_date c =
     (case c of
        CNull \<Rightarrow> Inr CNull
      | CDateTime t \<Rightarrow> Inr (CDate (date_part t))
      | _ \<Rightarrow> Inl ''Can only use .dt accessor with datetimelike values'')"

definition strict_bool :: "cell \<Rightarrow> string + cell" where
  "strict_bool c =
     (case c of
        CNull \<Rightarrow> Inr (CBool False)
      | CBool b \<Rightarrow> Inr (CBool b)
      | CInt i \<Rightarrow> Inr (CBool (i \<noteq> 0))
      | CFloat x \<Rightarrow> Inr (CBool (x \<noteq> 0))
      | CStr s \<Rightarrow> Inr (CBool (s \<noteq> []))
      | _ \<Rightarrow> Inr (CBool True))"

definition strict_numeric :: "cell \<Rightarrow> string + cell" where
  "strict_numeric c =
     (case c of
        CInt i \<Rightarrow> Inr (CInt i)
      | CFloat x \<Rightarrow> Inr (CFloat x)
      | CBool b \<Rightarrow> Inr (CInt (if b then 1 else 0))
      | _ \<Rightarrow> Inr CNull)"

definition strict_int :: "cell \<Rightarrow> string + cell" where
  "strict_int c =
     (case c of
        CInt i \<Rightarrow> Inr (CInt i)
      | CFloat x \<Rightarrow> Inr (CInt (if x < 0 then - \<lfloor>- x\<rfloor> else \<lfloor>x\<rfloor>))
      | CBool b \<Rightarrow> Inr (CInt (if b then 1 else 0))
      | _ \<Rightarrow> Inl ''Cannot convert non-finite values (NA or inf) to integer'')"

definition strict_float :: "cell \<Rightarrow> string + cell" where
  "strict_float c =
     (case c of
        CNull \<Rightarrow> Inr CNull
      | CInt i \<Rightarrow> Inr (CFloat (of_int i))
      | CFloat x \<Rightarrow> Inr (CFloat x)
      | CBool b \<Rightarrow> Inr (CFloat (if b then 1 else 0))
      | _ \<Rightarrow> Inl ''could not convert to float'')"

definition strict_str :: "cell \<Rightarrow> string + cell" where
  "strict_str c =
     (case c of
        CNull \<Rightarrow> Inr (CStr ''None'')
      | CStr s \<Rightarrow> Inr (CStr s)
      | CInt i \<Rightarrow> Inr (CStr (str_int i))
      | CFloat x \<Rightarrow> Inr (CStr ''float'')
      | CBool b \<Rightarrow> Inr (CStr (if b then ''True'' else ''False''))
      | CDate d \<Rightarrow> Inr (CStr (str_date d))
      | CDateTime t \<Rightarrow> Inr (CStr (str_date (date_part t) @ '' '' @ str_time (time_part t)))
      | CTime t \<Rightarrow> Inr (CStr (str_time t)))"

definition pandas_strict :: pandas where
  "pandas_strict = \<lparr>
     to_datetime = map_cells strict_to_datetime,
     dt_date = map_cells strict_dt_date,
     astype_bool = map_cells strict_bool,
     to_numeric_coerce = map_cells strict_numeric,
     fillna = (\<lambda>v c. Inr (map (\<lambda>x. if x = CNull then v else x) c)),
     astype_int = map_cells strict_int,
     astype_float = map_cells strict_float,
     astype_str = map_cells strict_str,
     isnull = (\<lambda>c. c = CNull),
     set_iter = (\<lambda>xs. xs)\<rparr>"

definition example_df :: dataframe where
  "example_df = \<lparr>df_len = 1, df_cols = [(''sku'', [CStr ''X-1'']), (''quantity'', [CInt 3])]\<rparr>"

definition nulls_and_extras_df :: dataframe where
  "nulls_and_extras_df = \<lparr>df_len = 1, df_cols = [
     (''formulation_id'', [CStr ''FMT-0001'']), (''product_name'', [CStr ''Body Oil'']),
     (''product_category'', [CStr ''Bodycare'']), (''version'', [CStr ''v1.0'']),
     (''status'', [CStr ''Active'']), (''created_date'', [CNull]),
     (''expected_yield_percentage'', [CFloat 90]), (''production_cost_per_unit'', [CFloat 150]),
     (''target_cycle_time_hours'', [CFloat 2]), (''quality_standards'', [CStr ''KEBS'']),
     (''notes'', [CNull])]\<rparr>"

definition bad_date_df :: dataframe where
  "bad_date_df = \<lparr>df_len = 1, df_cols = [(''created_date'', [CStr ''not a date''])]\<rparr>"

section \<open>The random module, numbers, strings and dates\<close>

text \<open>
  The state of Python's global \<^verbatim>\<open>random\<close> module is the stream of raw draws it has still
  to deliver; \<^verbatim>\<open>random.seed(s)\<close> replaces the state by the stream of the seed \<open>s\<close>, which
  the generator functions below take as a parameter. Each call consumes one raw draw and
  maps it into its range, so every sequence of results that the module can return is the
  image of some stream: \<^verbatim>\<open>_randbelow(n)\<close> returns a number below \<open>n\<close>,
  \<^verbatim>\<open>random()\<close> a multiple of \<open>2\<^sup>-\<^sup>5\<^sup>3\<close> in \<open>[0, 1)\<close>, \<^verbatim>\<open>uniform(a, b)\<close> is
  \<^verbatim>\<open>a + (b - a) * random()\<close>, \<^verbatim>\<open>randint(a, b)\<close> is \<^verbatim>\<open>a + _randbelow(b - a + 1)\<close> and raises
  \<^verbatim>\<open>ValueError\<close> on an empty range, and \<^verbatim>\<open>choice(seq)\<close> is \<^verbatim>\<open>seq[_randbelow(len(seq))]\<close> and
  raises \<^verbatim>\<open>IndexError\<close> on an empty sequence.
\<close>

type_synonym rng = "nat \<Rightarrow> nat"

definition advance :: "rng \<Rightarrow> rng" where
  "advance g = (\<lambda>n. g (Suc n))"

definition randbelow :: "nat \<Rightarrow> rng \<Rightarrow> nat \<times> rng" where
  "randbelow n g = (g 0 mod n, advance g)"

definition random_float :: "rng \<Rightarrow> py_error + real \<times> rng" where
  "random_float g = Inr (real (g 0 mod 2 ^ 53) / 2 ^ 53, advance g)"

definition uniform :: "real \<Rightarrow> real \<Rightarrow> rng \<Rightarrow> py_error + real \<times> rng" where
  "uniform a b g = bindE (random_float g) (\<lambda>(r, g). Inr (a + (b - a) * r, g))"

definition randint :: "int \<Rightarrow> int \<Rightarrow> rng \<Rightarrow> py_error + int \<times> rng" where
  "randint a b g =
     (if b < a then Inl ValueError
      else (case randbelow (nat (b - a + 1)) g of (k, g') \<Rightarrow> Inr (a + int k, g')))"

definition choice :: "'a list \<Rightarrow> rng \<Rightarrow> py_error + 'a \<times> rng" where
  "choice seq g =
     (if seq = [] then Inl IndexError
      else (case randbelow (length seq) g of (k, g') \<Rightarrow> Inr (seq ! k, g')))"

text \<open>\<^verbatim>\<open>round(x, n)\<close> and \<^verbatim>\<open>int(x)\<close> on floats.\<close>

definition round_half_even :: "real \<Rightarrow> int" where
  "round_half_even x =
     (if x - of_int \<lfloor>x\<rfloor> < 1 / 2 then \<lfloor>x\<rfloor>
      else if 1 / 2 < x - of_int \<lfloor>x\<rfloor> then \<lfloor>x\<rfloor> + 1
      else if even \<lfloor>x\<rfloor> then \<lfloor>x\<rfloor> else \<lfloor>x\<rfloor> + 1)"

definition py_round :: "real \<Rightarrow> nat \<Rightarrow> real" where
  "py_round x n = of_int (round_half_even (x * 10 ^ n)) / 10 ^ n"

definition py_int :: "real \<Rightarrow> int" where
  "py_int x = (if x < 0 then - \<lfloor>- x\<rfloor> else \<lfloor>x\<rfloor>)"

text \<open>String methods: \<^verbatim>\<open>lower\<close>, \<^verbatim>\<open>upper\<close>, \<^verbatim>\<open>replace(' ', '')\<close>, \<^verbatim>\<open>split()\<close>, \<^verbatim>\<open>sub in s\<close>.\<close>

definition lower_char :: "char \<Rightarrow> char" where
  "lower_char c =
     (case map_of (zip ''ABCDEFGHIJKLMNOPQRSTUVWXYZ'' ''abcdefghijklmnopqrstuvwxyz'') c of
        Some l \<Rightarrow> l | None \<Rightarrow> c)"

definition upper_char :: "char \<Rightarrow> char" where
  "upper_char c =
     (case map_of (zip ''abcdefghijklmnopqrstuvwxyz'' ''ABCDEFGHIJKLMNOPQRSTUVWXYZ'') c of
        Some u \<Rightarrow> u | None \<Rightarrow> c)"

definition lower :: "string \<Rightarrow> string" where
  "lower s = map lower_char s"

definition upper :: "string \<Rightarrow> string" where
  "upper s = map upper_char s"

definition remove_spaces :: "string \<Rightarrow> string" where
  "remove_spaces s = filter (\<lambda>c. c \<noteq> CHR '' '') s"

fun split_words :: "string \<Rightarrow> string \<Rightarrow> string list" where
  "split_words cur [] = (if cur = [] then [] else [cur])"
| "split_words cur (c # cs) =
     (if c = CHR '' '' then (if cur = [] then split_words [] cs else cur # split_words [] cs)
      else split_words (cur @ [c]) cs)"

definition py_split :: "string \<Rightarrow> string list" where
  "py_split s = split_words [] s"

fun starts_with :: "string \<Rightarrow> string \<Rightarrow> bool" where
  "starts_with [] s = True"
| "starts_with (x # xs) [] = False"
| "starts_with (x # xs) (y # ys) = (x = y \<and> starts_with xs ys)"

fun contains :: "string \<Rightarrow> string \<Rightarrow> bool" where
  "contains sub [] = (sub = [])"
| "contains sub (c # cs) = (starts_with sub (c # cs) \<or> contains sub cs)"

text \<open>
  Dates of the proleptic Gregorian calendar: \<^verbatim>\<open>d + timedelta(days=n)\<close> for \<open>n \<ge> 0\<close>,
  \<^verbatim>\<open>d.weekday()\<close> (Monday is 0), comparison, and the arithmetic on times of day that
  \<^verbatim>\<open>generate_attendance_data\<close> and \<^verbatim>\<open>generate_website_traffic\<close> use.
\<close>

definition is_leap :: "int \<Rightarrow> bool" where
  "is_leap y = (if y mod 400 = 0 then True else if y mod 100 = 0 then False else y mod 4 = 0)"

definition days_in_month :: "int \<Rightarrow> int \<Rightarrow> int" where
  "days_in_month y m =
     (if m = 2 then (if is_leap y then 29 else 28)
      else if m = 4 \<or> m = 6 \<or> m = 9 \<or> m = 11 then 30 else 31)"

definition next_day :: "date \<Rightarrow> date" where
  "next_day d =
     (if day d < days_in_month (year d) (month d) then Date (year d) (month d) (day d + 1)
      else if month d < 12 then Date (year d) (month d + 1) 1
      else Date (year d + 1) 1 1)"

definition date_add_days :: "date \<Rightarrow> nat \<Rightarrow> date" where
  "date_add_days d n = (next_day ^^ n) d"

definition days_before_year :: "int \<Rightarrow> int" where
  "days_before_year y = (y - 1) * 365 + (y - 1) div 4 - (y - 1) div 100 + (y - 1) div 400"

definition days_before_month :: "int \<Rightarrow> int \<Rightarrow> int" where
  "days_before_month y m = sum_list (map (days_in_month y) [1..m - 1])"

definition toordinal :: "date \<Rightarrow> int" where
  "toordinal d = days_before_year (year d) + days_before_month (year d) (month d) + day d"

definition weekday :: "date \<Rightarrow> int" where
  "weekday d = (toordinal d + 6) mod 7"

definition date_le :: "date \<Rightarrow> date \<Rightarrow> bool" where
  "date_le a b =
     (year a < year b \<or> (year a = year b \<and> (month a < month b \<or> (month a = month b \<and> day a \<le> day b))))"

definition seconds_of_time :: "time \<Rightarrow> int" where
  "seconds_of_time t = hour t * 3600 + minute t * 60 + second t"

definition time_of_seconds :: "int \<Rightarrow> time" where
  "time_of_seconds s = Time (s div 3600) (s mod 3600 div 60) (s mod 60)"

text \<open>\<^verbatim>\<open>(datetime.combine(d, t) + timedelta(minutes=m)).time()\<close>, for \<open>m\<close> of either sign.\<close>

definition time_add_minutes :: "time \<Rightarrow> int \<Rightarrow> time" where
  "time_add_minutes t m = time_of_seconds ((seconds_of_time t + m * 60) mod 86400)"

text \<open>\<^verbatim>\<open>(datetime.combine(d, b) - datetime.combine(d, a)).seconds\<close>.\<close>

definition seconds_between :: "time \<Rightarrow> time \<Rightarrow> int" where
  "seconds_between a b = (seconds_of_time b - seconds_of_time a) mod 86400"

text \<open>\<^verbatim>\<open>dt + timedelta(seconds=s)\<close> for \<open>s \<ge> 0\<close>.\<close>

definition datetime_add_seconds :: "datetime \<Rightarrow> int \<Rightarrow> datetime" where
  "datetime_add_seconds dt s =
     (let total = seconds_of_time (time_part dt) + s
      in DateTime (date_add_days (date_part dt) (nat (total div 86400)))
                  (time_of_seconds (total mod 86400)))"

section \<open>The generators of the dimension tables\<close>

text \<open>
  Every generator builds a list of dictionaries with the same keys and returns
  \<^verbatim>\<open>pd.DataFrame(rows)\<close>. A dictionary is a record with one field per key (the field names
  carry a prefix per table, since several tables share key names), the list of records is
  the table the later generators read, and \<open>DataFrame\<close> below gives the pandas table
  that is validated: a list of no rows gives a table with no columns.
\<close>

definition DataFrame :: "(string \<times> ('r \<Rightarrow> cell)) list \<Rightarrow> 'r list \<Rightarrow> dataframe" where
  "DataFrame keys rows =
     (if rows = [] then \<lparr>df_len = 0, df_cols = []\<rparr>
      else \<lparr>df_len = length rows, df_cols = map (\<lambda>(k, f). (k, map f rows)) keys\<rparr>)"

subsection \<open>\<^verbatim>\<open>generate_tenants_data\<close>\<close>

record tenant =
  tn_tenant_id :: string
  tn_tenant_name :: string
  tn_business_type :: string
  tn_industry :: string
  tn_subscription_plan :: string
  tn_subscription_start :: date
  tn_subscription_end :: date
  tn_max_users :: int
  tn_active_users :: int
  tn_monthly_fee :: real
  tn_status :: string
  tn_contact_email :: string
  tn_contact_phone :: string

definition generate_tenants_data :: "tenant list" where
  "generate_tenants_data = [
     \<lparr>tn_tenant_id = ''cinta_beauty'', tn_tenant_name = ''Cinta Beauty Ltd'',
      tn_business_type = ''Manufacturing'', tn_industry = ''Cosmetics & Beauty Products'',
      tn_subscription_plan = ''Enterprise'', tn_subscription_start = Date 2023 1 1,
      tn_subscription_end = Date 2025 12 31, tn_max_users = 50, tn_active_users = 35,
      tn_monthly_fee = 250000, tn_status = ''Active'',
      tn_contact_email = ''admin@cintabeauty.co.ke'', tn_contact_phone = ''+254 700 123 456''\<rparr>,
     \<lparr>tn_tenant_id = ''virtual_analytics'', tn_tenant_name = ''Virtual Analytics Demo'',
      tn_business_type = ''Consulting'', tn_industry = ''Technology Services'',
      tn_subscription_plan = ''Growth'', tn_subscription_start = Date 2024 6 1,
      tn_subscription_end = Date 2024 12 31, tn_max_users = 20, tn_active_users = 15,
      tn_monthly_fee = 150000, tn_status = ''Active'',
      tn_contact_email = ''demo@virtualanalytics.com'', tn_contact_phone = ''+254 711 987 654''\<rparr>,
     \<lparr>tn_tenant_id = ''sme_demo_01'', tn_tenant_name = ''SME Manufacturing Demo'',
      tn_business_type = ''Manufacturing'', tn_industry = ''FMCG'',
      tn_subscription_plan = ''Starter'', tn_subscription_start = Date 2024 3 15,
      tn_subscription_end = Date 2024 9 14, tn_max_users = 10, tn_active_users = 8,
      tn_monthly_fee = 75000, tn_status = ''Active'',
      tn_contact_email = ''info@smedemo.co.ke'', tn_contact_phone = ''+254 722 456 789''\<rparr>]"

definition tenant_keys :: "(string \<times> (tenant \<Rightarrow> cell)) list" where
  "tenant_keys = [
     (''tenant_id'', \<lambda>r. CStr (tn_tenant_id r)), (''tenant_name'', \<lambda>r. CStr (tn_tenant_name r)),
     (''business_type'', \<lambda>r. CStr (tn_business_type r)), (''industry'', \<lambda>r. CStr (tn_industry r)),
     (''subscription_plan'', \<lambda>r. CStr (tn_subscription_plan r)),
     (''subscription_start'', \<lambda>r. CDate (tn_subscription_start r)),
     (''subscription_end'', \<lambda>r. CDate (tn_subscription_end r)),
     (''max_users'', \<lambda>r. CInt (tn_max_users r)), (''active_users'', \<lambda>r. CInt (tn_active_users r)),
     (''monthly_fee'', \<lambda>r. CFloat (tn_monthly_fee r)), (''status'', \<lambda>r. CStr (tn_status r)),
     (''contact_email'', \<lambda>r. CStr (tn_contact_email r)),
     (''contact_phone'', \<lambda>r. CStr (tn_contact_phone r))]"

subsection \<open>\<^verbatim>\<open>generate_formulations_data\<close>\<close>

record formulation =
  fm_formulation_id :: string
  fm_product_name :: string
  fm_product_category :: string
  fm_version :: string
  fm_status :: string
  fm_created_date :: date
  fm_expected_yield_percentage :: real
  fm_production_cost_per_unit :: real
  fm_target_cycle_time_hours :: real
  fm_quality_standards :: string

definition formulation_keys :: "(string \<times> (formulation \<Rightarrow> cell)) list" where
  "formulation_keys = [
     (''formulation_id'', \<lambda>r. CStr (fm_formulation_id r)),
     (''product_name'', \<lambda>r. CStr (fm_product_name r)),
     (''product_category'', \<lambda>r. CStr (fm_product_category r)),
     (''version'', \<lambda>r. CStr (fm_version r)), (''status'', \<lambda>r. CStr (fm_status r)),
     (''created_date'', \<lambda>r. CDate (fm_created_date r)),
     (''expected_yield_percentage'', \<lambda>r. CFloat (fm_expected_yield_percentage r)),
     (''production_cost_per_unit'', \<lambda>r. CFloat (fm_production_cost_per_unit r)),
     (''target_cycle_time_hours'', \<lambda>r. CFloat (fm_target_cycle_time_hours r)),
     (''quality_standards'', \<lambda>r. CStr (fm_quality_standards r))]"

definition product_categories :: "(string \<times> string list) list" where
  "product_categories = [
     (''Skincare'', [''Vitamin C Serum'', ''Hyaluronic Acid Serum'', ''Retinol Night Cream'',
        ''SPF 50 Sunscreen'', ''Tea Tree Face Wash'', ''Niacinamide Toner'',
        ''Ceramide Moisturizer'', ''AHA/BHA Exfoliant'']),
     (''Haircare'', [''Argan Oil Shampoo'', ''Biotin Conditioner'', ''Hair Growth Serum'',
        ''Scalp Treatment'', ''Leave-in Conditioner'', ''Hair Mask'', ''Heat Protectant'',
        ''Color Protection Serum'']),
     (''Bodycare'', [''Body Lotion'', ''Body Butter'', ''Body Scrub'', ''Body Oil'', ''Hand Cream'',
        ''Foot Cream'', ''Deodorant'', ''Body Mist'']),
     (''Makeup'', [''Foundation'', ''Concealer'', ''Lipstick'', ''Mascara'', ''Blush'', ''Highlighter'',
        ''Eyeshadow'', ''Setting Spray''])]"

definition formulation_row :: "string \<Rightarrow> string \<Rightarrow> int \<Rightarrow> rng \<Rightarrow> py_error + formulation \<times> rng" where
  "formulation_row category product formulation_id g =
     bindE (randint 1 3 g) (\<lambda>(v_major, g).
     bindE (randint 0 9 g) (\<lambda>(v_minor, g).
     bindE (choice [''Active'', ''Active'', ''Active'', ''Archived''] g) (\<lambda>(status, g).
     bindE (randint 1 12 g) (\<lambda>(m, g).
     bindE (randint 1 28 g) (\<lambda>(d, g).
     bindE (uniform 85 98 g) (\<lambda>(yield, g).
     bindE (uniform 150 5000 g) (\<lambda>(cost, g).
     bindE (uniform 2 48 g) (\<lambda>(cycle, g).
     bindE (choice [''KEBS'', ''FDA'', ''ISO 22716'', ''EU Regulations''] g) (\<lambda>(standards, g).
     Inr (\<lparr>fm_formulation_id = ''FMT-'' @ fmt_0d 4 formulation_id,
           fm_product_name = product,
           fm_product_category = category,
           fm_version = ''v'' @ str_int v_major @ ''.'' @ str_int v_minor,
           fm_status = status,
           fm_created_date = Date 2023 m d,
           fm_expected_yield_percentage = py_round yield 2,
           fm_production_cost_per_unit = py_round cost 2,
           fm_target_cycle_time_hours = py_round cycle 1,
           fm_quality_standards = standards\<rparr>, g))))))))))"

definition generate_formulations_data :: "rng \<Rightarrow> py_error + formulation list \<times> rng" where
  "generate_formulations_data g =
     bindE (for_each (\<lambda>(category, products).
              for_each (\<lambda>product (formulations, formulation_id, g).
                 bindE (formulation_row category product formulation_id g) (\<lambda>(row, g).
                 Inr (formulations @ [row], formulation_id + 1, g)))
               products)
            product_categories ([], 1, g))
       (\<lambda>(formulations, formulation_id, g). Inr (formulations, g))"

subsection \<open>\<^verbatim>\<open>generate_raw_materials_data\<close>\<close>

record raw_material =
  rm_material_id :: string
  rm_material_name :: string
  rm_category :: string
  rm_supplier_id :: string
  rm_unit_of_measure :: string
  rm_unit_cost :: real
  rm_min_stock_level :: int
  rm_current_stock :: int
  rm_shelf_life_days :: int
  rm_storage_requirements :: string

definition raw_material_keys :: "(string \<times> (raw_material \<Rightarrow> cell)) list" where
  "raw_material_keys = [
     (''material_id'', \<lambda>r. CStr (rm_material_id r)),
     (''material_name'', \<lambda>r. CStr (rm_material_name r)),
     (''category'', \<lambda>r. CStr (rm_category r)), (''supplier_id'', \<lambda>r. CStr (rm_supplier_id r)),
     (''unit_of_measure'', \<lambda>r. CStr (rm_unit_of_measure r)),
     (''unit_cost'', \<lambda>r. CFloat (rm_unit_cost r)),
     (''min_stock_level'', \<lambda>r. CInt (rm_min_stock_level r)),
     (''current_stock'', \<lambda>r. CInt (rm_current_stock r)),
     (''shelf_life_days'', \<lambda>r. CInt (rm_shelf_life_days r)),
     (''storage_requirements'', \<lambda>r. CStr (rm_storage_requirements r))]"

definition material_categories :: "(string \<times> string list) list" where
  "material_categories = [
     (''Active Ingredients'', [''Vitamin C (Ascorbic Acid)'', ''Hyaluronic Acid'', ''Retinol'',
        ''Niacinamide'', ''Salicylic Acid'', ''Glycolic Acid'', ''Ceramides'', ''Peptides'',
        ''Coenzyme Q10'']),
     (''Base Oils'', [''Jojoba Oil'', ''Argan Oil'', ''Rosehip Oil'', ''Coconut Oil'', ''Almond Oil'',
        ''Olive Oil'', ''Grapeseed Oil'', ''Sunflower Oil'', ''Shea Butter'']),
     (''Emulsifiers'', [''Cetearyl Alcohol'', ''Glyceryl Stearate'', ''Polysorbate 80'', ''Lecithin'',
        ''Cetyl Alcohol'', ''Stearic Acid'']),
     (''Preservatives'', [''Phenoxyethanol'', ''Potassium Sorbate'', ''Sodium Benzoate'',
        ''Benzyl Alcohol'']),
     (''Fragrances'', [''Rose Essential Oil'', ''Lavender Oil'', ''Tea Tree Oil'', ''Peppermint Oil'',
        ''Citrus Blend'', ''Unscented'']),
     (''Packaging'', [''Glass Bottle 30ml'', ''Plastic Tube 50ml'', ''Airless Pump'', ''Dropper'',
        ''Jar 60ml'', ''Spray Bottle'', ''Box Packaging'', ''Labels''])]"

definition suppliers :: "string list" where
  "suppliers = map (\<lambda>i. ''SUP-'' @ fmt_0d 3 i) [1..20]"

definition raw_material_row :: "string \<Rightarrow> string \<Rightarrow> int \<Rightarrow> rng \<Rightarrow> py_error + raw_material \<times> rng" where
  "raw_material_row category item material_id g =
     bindE (uniform 50 5000 g) (\<lambda>(unit_cost, g).
     bindE (choice suppliers g) (\<lambda>(supplier, g).
     bindE (choice [''kg'', ''liters'', ''pieces'', ''grams''] g) (\<lambda>(unit, g).
     bindE (randint 10 100 g) (\<lambda>(min_stock, g).
     bindE (randint 50 500 g) (\<lambda>(stock, g).
     bindE (choice [180, 365, 730, 1095] g) (\<lambda>(shelf_life, g).
     bindE (choice [''Room Temp'', ''Cool Dry Place'', ''Refrigerated'', ''Air Tight''] g) (\<lambda>(storage, g).
     Inr (\<lparr>rm_material_id = ''MAT-'' @ fmt_0d 4 material_id,
           rm_material_name = item,
           rm_category = category,
           rm_supplier_id = supplier,
           rm_unit_of_measure = unit,
           rm_unit_cost = py_round unit_cost 2,
           rm_min_stock_level = min_stock,
           rm_current_stock = stock,
           rm_shelf_life_days = shelf_life,
           rm_storage_requirements = storage\<rparr>, g))))))))"

definition generate_raw_materials_data :: "rng \<Rightarrow> py_error + raw_material list \<times> rng" where
  "generate_raw_materials_data g =
     bindE (for_each (\<lambda>(category, items).
              for_each (\<lambda>item (materials, material_id, g).
                 bindE (raw_material_row category item material_id g) (\<lambda>(row, g).
                 Inr (materials @ [row], material_id + 1, g)))
               items)
            material_categories ([], 1, g))
       (\<lambda>(materials, material_id, g). Inr (materials, g))"

subsection \<open>\<^verbatim>\<open>generate_employees_data\<close>\<close>

record employee =
  em_employee_id :: string
  em_first_name :: string
  em_last_name :: string
  em_email :: string
  em_phone :: string
  em_department :: string
  em_position :: string
  em_hire_date :: date
  em_salary :: real
  em_employment_type :: string
  em_supervisor_id :: string
  em_shift_pattern :: string
  em_active :: bool

definition employee_keys :: "(string \<times> (employee \<Rightarrow> cell)) list" where
  "employee_keys = [
     (''employee_id'', \<lambda>r. CStr (em_employee_id r)), (''first_name'', \<lambda>r. CStr (em_first_name r)),
     (''last_name'', \<lambda>r. CStr (em_last_name r)), (''email'', \<lambda>r. CStr (em_email r)),
     (''phone'', \<lambda>r. CStr (em_phone r)), (''department'', \<lambda>r. CStr (em_department r)),
     (''position'', \<lambda>r. CStr (em_position r)), (''hire_date'', \<lambda>r. CDate (em_hire_date r)),
     (''salary'', \<lambda>r. CFloat (em_salary r)),
     (''employment_type'', \<lambda>r. CStr (em_employment_type r)),
     (''supervisor_id'', \<lambda>r. CStr (em_supervisor_id r)),
     (''shift_pattern'', \<lambda>r. CStr (em_shift_pattern r)), (''active'', \<lambda>r. CBool (em_active r))]"

definition departments :: "(string \<times> string list) list" where
  "departments = [
     (''Production'', [''Production Manager'', ''Line Supervisor'', ''Machine Operator'',
        ''Quality Technician'', ''Production Worker'', ''Maintenance Technician'']),
     (''Quality Control'', [''QC Manager'', ''Lab Technician'', ''Quality Inspector'',
        ''Compliance Officer'']),
     (''Research & Development'', [''R&D Manager'', ''Formulation Scientist'', ''Product Developer'',
        ''Lab Assistant'']),
     (''Sales & Marketing'', [''Sales Manager'', ''Marketing Executive'', ''Account Manager'',
        ''Customer Service'']),
     (''Finance & Admin'', [''Finance Manager'', ''Accountant'', ''HR Manager'', ''Admin Assistant'']),
     (''Supply Chain'', [''Procurement Manager'', ''Inventory Controller'', ''Logistics Coordinator'',
        ''Warehouse Supervisor''])]"

definition employee_first_names :: "string list" where
  "employee_first_names = [''John'', ''Mary'', ''James'', ''Elizabeth'', ''Robert'', ''Sarah'',
     ''Michael'', ''Susan'', ''David'', ''Margaret'', ''William'', ''Dorothy'', ''Richard'', ''Lisa'',
     ''Charles'', ''Nancy'', ''Joseph'', ''Karen'', ''Thomas'', ''Betty'', ''Daniel'', ''Helen'', ''Paul'',
     ''Sandra'', ''Mark'', ''Ashley'', ''Donald'', ''Kimberly'', ''George'', ''Emily'', ''Kenneth'',
     ''Donna'']"

definition employee_last_names :: "string list" where
  "employee_last_names = [''Smith'', ''Johnson'', ''Williams'', ''Jones'', ''Brown'', ''Davis'',
     ''Miller'', ''Wilson'', ''Moore'', ''Taylor'', ''Anderson'', ''Thomas'', ''Jackson'', ''White'',
     ''Harris'', ''Martin'', ''Thompson'', ''Garcia'', ''Martinez'', ''Robinson'', ''Clark'',
     ''Rodriguez'', ''Lewis'', ''Lee'']"

definition employee_row :: "string \<Rightarrow> string \<Rightarrow> int \<Rightarrow> rng \<Rightarrow> py_error + employee \<times> rng" where
  "employee_row dept position employee_id g =
     bindE (choice employee_first_names g) (\<lambda>(first_name, g).
     bindE (choice employee_last_names g) (\<lambda>(last_name, g).
     bindE (randint 0 4 g) (\<lambda>(hy, g).
     bindE (randint 1 12 g) (\<lambda>(hm, g).
     bindE (randint 1 28 g) (\<lambda>(hday, g).
     bindE (if contains ''Manager'' position then uniform 150000 300000 g
            else if contains ''Senior'' position \<or> contains ''Lead'' position then uniform 80000 150000 g
            else uniform 30000 80000 g) (\<lambda>(salary, g).
     bindE (randint 10 99 g) (\<lambda>(p1, g).
     bindE (randint 100000 999999 g) (\<lambda>(p2, g).
     bindE (choice [''Permanent'', ''Contract'', ''Temporary''] g) (\<lambda>(employment_type, g).
     bindE (if employee_id > 5
            then bindE (randint 1 5 g) (\<lambda>(s, g). Inr (''EMP-'' @ fmt_0d 4 s, g))
            else Inr ('''', g)) (\<lambda>(supervisor_id, g).
     bindE (choice [''Morning'', ''Evening'', ''Night'', ''Flexible''] g) (\<lambda>(shift_pattern, g).
     bindE (choice [True, True, True, False] g) (\<lambda>(active, g).
     Inr (\<lparr>em_employee_id = ''EMP-'' @ fmt_0d 4 employee_id,
           em_first_name = first_name,
           em_last_name = last_name,
           em_email = lower first_name @ ''.'' @ lower last_name @ ''@cintabeauty.co.ke'',
           em_phone = ''+254 7'' @ str_int p1 @ '' '' @ str_int p2,
           em_department = dept,
           em_position = position,
           em_hire_date = Date (2020 + hy) hm hday,
           em_salary = py_round salary 2,
           em_employment_type = employment_type,
           em_supervisor_id = supervisor_id,
           em_shift_pattern = shift_pattern,
           em_active = active\<rparr>, g)))))))))))))"

definition generate_employees_data :: "rng \<Rightarrow> py_error + employee list \<times> rng" where
  "generate_employees_data g =
     bindE (for_each (\<lambda>(dept, positions).
              for_each (\<lambda>position (employees, employee_id, g).
                 bindE (employee_row dept position employee_id g) (\<lambda>(row, g).
                 Inr (employees @ [row], employee_id + 1, g)))
               positions)
            departments ([], 1, g))
       (\<lambda>(employees, employee_id, g). Inr (employees, g))"

subsection \<open>\<^verbatim>\<open>generate_customers_data\<close>\<close>

record customer =
  cu_customer_id :: string
  cu_customer_name :: string
  cu_customer_type :: string
  cu_email :: string
  cu_phone :: string
  cu_address :: string
  cu_city :: string
  cu_country :: string
  cu_customer_since :: date
  cu_loyalty_points :: int
  cu_total_purchases :: real
  cu_last_purchase_date :: date

definition customer_keys :: "(string \<times> (customer \<Rightarrow> cell)) list" where
  "customer_keys = [
     (''customer_id'', \<lambda>r. CStr (cu_customer_id r)),
     (''customer_name'', \<lambda>r. CStr (cu_customer_name r)),
     (''customer_type'', \<lambda>r. CStr (cu_customer_type r)), (''email'', \<lambda>r. CStr (cu_email r)),
     (''phone'', \<lambda>r. CStr (cu_phone r)), (''address'', \<lambda>r. CStr (cu_address r)),
     (''city'', \<lambda>r. CStr (cu_city r)), (''country'', \<lambda>r. CStr (cu_country r)),
     (''customer_since'', \<lambda>r. CDate (cu_customer_since r)),
     (''loyalty_points'', \<lambda>r. CInt (cu_loyalty_points r)),
     (''total_purchases'', \<lambda>r. CFloat (cu_total_purchases r)),
     (''last_purchase_date'', \<lambda>r. CDate (cu_last_purchase_date r))]"

definition cities :: "string list" where
  "cities = [''Nairobi'', ''Mombasa'', ''Kisumu'', ''Nakuru'', ''Eldoret'', ''Thika'', ''Malindi'',
     ''Kitale'']"

definition b2b_names :: "string list" where
  "b2b_names = [''Nairobi Beauty Mart'', ''Coast Cosmetics Distributors'', ''Lake Region Retail'',
     ''Rift Valley Supplies'', ''Mombasa Mall Stores'', ''Kisumu City Suppliers'',
     ''Nakuru Wholesalers'', ''Eldoret Trading Co'', ''Thika Retail Hub'', ''Malindi Beach Stores'',
     ''Kitale Northern Distributors'', ''Central Kenya Suppliers'']"

definition customer_first_names :: "string list" where
  "customer_first_names = [''Grace'', ''Faith'', ''Joy'', ''Hope'', ''Mercy'', ''Blessing'', ''Victor'',
     ''Samuel'', ''Peter'', ''Joseph'', ''Ruth'', ''Esther'', ''Naomi'', ''Hannah'', ''David'', ''Isaac'',
     ''Jacob'', ''Daniel'', ''Stephen'', ''Andrew'']"

definition customer_last_names :: "string list" where
  "customer_last_names = [''Mwangi'', ''Kariuki'', ''Ochieng'', ''Odhiambo'', ''Kamau'', ''Wanjiru'',
     ''Akinyi'', ''Achieng'', ''Otieno'', ''Omondi'']"

definition b2b_customer_row :: "string \<Rightarrow> int \<Rightarrow> rng \<Rightarrow> py_error + customer \<times> rng" where
  "b2b_customer_row name customer_id g =
     bindE (choice cities g) (\<lambda>(city, g).
     bindE (randint 10 99 g) (\<lambda>(p1, g).
     bindE (randint 100000 999999 g) (\<lambda>(p2, g).
     bindE (randint 1 999 g) (\<lambda>(house, g).
     bindE (choice [''Moi'', ''Kenyatta'', ''Uhuru'', ''Koinange''] g) (\<lambda>(street, g).
     bindE (randint 0 4 g) (\<lambda>(sy, g).
     bindE (randint 1 12 g) (\<lambda>(sm, g).
     bindE (randint 1 28 g) (\<lambda>(sd, g).
     bindE (randint 1000 10000 g) (\<lambda>(points, g).
     bindE (uniform 50000 500000 g) (\<lambda>(purchases, g).
     bindE (randint 1 12 g) (\<lambda>(lm, g).
     bindE (randint 1 28 g) (\<lambda>(ld, g).
     Inr (\<lparr>cu_customer_id = ''B2B-'' @ fmt_0d 4 customer_id,
           cu_customer_name = name,
           cu_customer_type = ''Business'',
           cu_email = ''orders@'' @ remove_spaces (lower name) @ ''.co.ke'',
           cu_phone = ''+254 7'' @ str_int p1 @ '' '' @ str_int p2,
           cu_address = str_int house @ '' '' @ street @ '' Avenue'',
           cu_city = city,
           cu_country = ''Kenya'',
           cu_customer_since = Date (2020 + sy) sm sd,
           cu_loyalty_points = points,
           cu_total_purchases = py_round purchases 2,
           cu_last_purchase_date = Date 2024 lm ld\<rparr>, g)))))))))))))"

definition b2c_customer_row :: "int \<Rightarrow> rng \<Rightarrow> py_error + customer \<times> rng" where
  "b2c_customer_row customer_id g =
     bindE (choice customer_first_names g) (\<lambda>(first, g).
     bindE (choice customer_last_names g) (\<lambda>(last, g).
     bindE (choice cities g) (\<lambda>(city, g).
     bindE (randint 10 99 g) (\<lambda>(p1, g).
     bindE (randint 100000 999999 g) (\<lambda>(p2, g).
     bindE (randint 1 999 g) (\<lambda>(house, g).
     bindE (choice [''Street'', ''Road'', ''Avenue'', ''Drive''] g) (\<lambda>(street, g).
     bindE (randint 0 2 g) (\<lambda>(sy, g).
     bindE (randint 1 12 g) (\<lambda>(sm, g).
     bindE (randint 1 28 g) (\<lambda>(sd, g).
     bindE (randint 0 500 g) (\<lambda>(points, g).
     bindE (uniform 1000 50000 g) (\<lambda>(purchases, g).
     bindE (randint 1 12 g) (\<lambda>(lm, g).
     bindE (randint 1 28 g) (\<lambda>(ld, g).
     Inr (\<lparr>cu_customer_id = ''B2C-'' @ fmt_0d 4 customer_id,
           cu_customer_name = first @ '' '' @ last,
           cu_customer_type = ''Individual'',
           cu_email = lower first @ ''.'' @ lower last @ ''@gmail.com'',
           cu_phone = ''+254 7'' @ str_int p1 @ '' '' @ str_int p2,
           cu_address = str_int house @ '' '' @ street,
           cu_city = city,
           cu_country = ''Kenya'',
           cu_customer_since = Date (2022 + sy) sm sd,
           cu_loyalty_points = points,
           cu_total_purchases = py_round purchases 2,
           cu_last_purchase_date = Date 2024 lm ld\<rparr>, g)))))))))))))))"

definition generate_customers_data :: "rng \<Rightarrow> py_error + customer list \<times> rng" where
  "generate_customers_data g =
     bindE (for_each (\<lambda>name (customers, customer_id, g).
              bindE (b2b_customer_row name customer_id g) (\<lambda>(row, g).
              Inr (customers @ [row], customer_id + 1, g)))
            b2b_names ([], 1, g)) (\<lambda>s.
     bindE (for_each (\<lambda>i (customers, customer_id, g).
              bindE (b2c_customer_row customer_id g) (\<lambda>(row, g).
              Inr (customers @ [row], customer_id + 1, g)))
            [0..<50] s) (\<lambda>(customers, customer_id, g).
     Inr (customers, g)))"

section \<open>The generators of the production, inventory and sales tables\<close>

text \<open>
  A generator reads the tables it is given by their rows. Reading a column of a table
  that was built from no rows raises \<^verbatim>\<open>KeyError\<close>, since such a table has no columns;
  \<^verbatim>\<open>to_dict('records')\<close> and \<^verbatim>\<open>iterrows()\<close> of it just give no rows.
\<close>

definition columns_of :: "'r list \<Rightarrow> py_error + 'r list" where
  "columns_of rows = (if rows = [] then Inl KeyError else Inr rows)"

text \<open>\<^verbatim>\<open>dict(zip(keys, values))\<close>: a key keeps its first position and takes its last value.\<close>

fun dict_set :: "'k \<Rightarrow> 'v \<Rightarrow> ('k \<times> 'v) list \<Rightarrow> ('k \<times> 'v) list" where
  "dict_set k v [] = [(k, v)]"
| "dict_set k v ((k', v') # d) = (if k' = k then (k, v) # d else (k', v') # dict_set k v d)"

definition py_dict :: "('k \<times> 'v) list \<Rightarrow> ('k \<times> 'v) list" where
  "py_dict kvs = fold (\<lambda>(k, v) d. dict_set k v d) kvs []"

subsection \<open>\<^verbatim>\<open>generate_production_batches\<close>\<close>

record batch =
  pb_batch_id :: string
  pb_formulation_id :: string
  pb_production_date :: date
  pb_planned_quantity :: int
  pb_actual_quantity :: int
  pb_yield_percentage :: real
  pb_status :: string
  pb_equipment_id :: string
  pb_supervisor_id :: string
  pb_quality_score :: real
  pb_total_cost :: real
  pb_completion_time_hours :: real

definition batch_keys :: "(string \<times> (batch \<Rightarrow> cell)) list" where
  "batch_keys = [
     (''batch_id'', \<lambda>r. CStr (pb_batch_id r)), (''formulation_id'', \<lambda>r. CStr (pb_formulation_id r)),
     (''production_date'', \<lambda>r. CDate (pb_production_date r)),
     (''planned_quantity'', \<lambda>r. CInt (pb_planned_quantity r)),
     (''actual_quantity'', \<lambda>r. CInt (pb_actual_quantity r)),
     (''yield_percentage'', \<lambda>r. CFloat (pb_yield_percentage r)),
     (''status'', \<lambda>r. CStr (pb_status r)), (''equipment_id'', \<lambda>r. CStr (pb_equipment_id r)),
     (''supervisor_id'', \<lambda>r. CStr (pb_supervisor_id r)),
     (''quality_score'', \<lambda>r. CFloat (pb_quality_score r)),
     (''total_cost'', \<lambda>r. CFloat (pb_total_cost r)),
     (''completion_time_hours'', \<lambda>r. CFloat (pb_completion_time_hours r))]"

definition batch_row :: "formulation list \<Rightarrow> string list \<Rightarrow> int \<Rightarrow> rng \<Rightarrow> py_error + batch \<times> rng" where
  "batch_row formulations production_staff batch_id g =
     bindE (choice formulations g) (\<lambda>(formulation, g).
     bindE (randint 1 12 g) (\<lambda>(m, g).
     bindE (randint 1 28 g) (\<lambda>(d, g).
     bindE (randint 100 1000 g) (\<lambda>(planned_qty, g).
     bindE (uniform (9 / 10) (11 / 10) g) (\<lambda>(noise, g).
     let actual_qty = py_int (of_int planned_qty * (fm_expected_yield_percentage formulation / 100) * noise);
         yield_pct = (of_int actual_qty / of_int planned_qty) * 100
     in
     bindE (choice [''Completed'', ''Completed'', ''Completed'', ''In Progress'', ''Quality Hold''] g) (\<lambda>(status, g).
     let unit_cost = fm_production_cost_per_unit formulation in
     bindE (uniform (95 / 100) (105 / 100) g) (\<lambda>(cost_noise, g).
     let total_cost = of_int actual_qty * unit_cost * cost_noise in
     bindE (uniform (8 / 10) (12 / 10) g) (\<lambda>(quality_noise, g).
     let quality_score = min 100 (yield_pct * quality_noise) in
     bindE (randint 1 10 g) (\<lambda>(equipment, g).
     bindE (choice production_staff g) (\<lambda>(supervisor, g).
     bindE (uniform (8 / 10) (13 / 10) g) (\<lambda>(time_noise, g).
     Inr (\<lparr>pb_batch_id = ''BATCH-'' @ fmt_0d 4 batch_id,
           pb_formulation_id = fm_formulation_id formulation,
           pb_production_date = Date 2024 m d,
           pb_planned_quantity = planned_qty,
           pb_actual_quantity = actual_qty,
           pb_yield_percentage = py_round yield_pct 2,
           pb_status = status,
           pb_equipment_id = ''EQP-'' @ fmt_0d 3 equipment,
           pb_supervisor_id = supervisor,
           pb_quality_score = py_round quality_score 1,
           pb_total_cost = py_round total_cost 2,
           pb_completion_time_hours =
             py_round (fm_target_cycle_time_hours formulation * time_noise) 1\<rparr>, g))))))))))))"

definition generate_production_batches ::
  "formulation list \<Rightarrow> employee list \<Rightarrow> rng \<Rightarrow> py_error + batch list \<times> rng" where
  "generate_production_batches formulations_df employees_df g =
     bindE (columns_of formulations_df) (\<lambda>fs.
     let formulations = filter (\<lambda>f. fm_status f = ''Active'') fs in
     bindE (columns_of employees_df) (\<lambda>es.
     let production_staff = map em_employee_id (filter (\<lambda>e. em_department e = ''Production'') es) in
     bindE (for_each (\<lambda>i (batches, batch_id, g).
              bindE (batch_row formulations production_staff batch_id g) (\<lambda>(row, g).
              Inr (batches @ [row], batch_id + 1, g)))
            [0..<100] ([], 1, g)) (\<lambda>(batches, batch_id, g).
     Inr (batches, g))))"

subsection \<open>\<^verbatim>\<open>generate_inventory_items\<close>\<close>

record inventory_item =
  it_sku :: string
  it_item_name :: string
  it_category :: string
  it_unit_of_measure :: string
  it_current_stock :: int
  it_min_stock_level :: int
  it_max_stock_level :: int
  it_average_unit_cost :: real
  it_total_value :: real
  it_last_restock_date :: date
  it_expiry_date :: date
  it_storage_location :: string

definition inventory_item_keys :: "(string \<times> (inventory_item \<Rightarrow> cell)) list" where
  "inventory_item_keys = [
     (''sku'', \<lambda>r. CStr (it_sku r)), (''item_name'', \<lambda>r. CStr (it_item_name r)),
     (''category'', \<lambda>r. CStr (it_category r)),
     (''unit_of_measure'', \<lambda>r. CStr (it_unit_of_measure r)),
     (''current_stock'', \<lambda>r. CInt (it_current_stock r)),
     (''min_stock_level'', \<lambda>r. CInt (it_min_stock_level r)),
     (''max_stock_level'', \<lambda>r. CInt (it_max_stock_level r)),
     (''average_unit_cost'', \<lambda>r. CFloat (it_average_unit_cost r)),
     (''total_value'', \<lambda>r. CFloat (it_total_value r)),
     (''last_restock_date'', \<lambda>r. CDate (it_last_restock_date r)),
     (''expiry_date'', \<lambda>r. CDate (it_expiry_date r)),
     (''storage_location'', \<lambda>r. CStr (it_storage_location r))]"

definition sku_base :: "string \<Rightarrow> string" where
  "sku_base product_name = concat (map (\<lambda>word. upper (take 3 word)) (py_split product_name))"

definition inventory_item_row ::
  "batch list \<Rightarrow> formulation list \<Rightarrow> (string \<times> string) list \<Rightarrow> string \<Rightarrow> string \<Rightarrow> rng
     \<Rightarrow> py_error + inventory_item \<times> rng" where
  "inventory_item_row batches_df formulations_df formulation_to_category formulation_id product_name g =
     (case map_of formulation_to_category formulation_id of
        None \<Rightarrow> Inl KeyError
      | Some category \<Rightarrow>
     bindE (randint 100 999 g) (\<lambda>(suffix, g).
     let sku = sku_base product_name @ ''-'' @ upper (take 3 category) @ ''-'' @ str_int suffix in
     bindE (columns_of batches_df) (\<lambda>bs.
     let formulation_batches = filter (\<lambda>b. pb_formulation_id b = formulation_id) bs;
         total_produced = (if formulation_batches \<noteq> [] then sum_list (map pb_actual_quantity formulation_batches) else 0)
     in
     (case filter (\<lambda>f. fm_formulation_id f = formulation_id) formulations_df of
        [] \<Rightarrow> Inl IndexError
      | first_row # _ \<Rightarrow>
     let unit_cost = fm_production_cost_per_unit first_row in
     bindE (uniform (1 / 10) (7 / 10) g) (\<lambda>(remaining, g).
     let current_stock = py_int (of_int total_produced * remaining) in
     bindE (choice [''pcs'', ''ml'', ''g'', ''jar''] g) (\<lambda>(unit, g).
     bindE (randint 10 100 g) (\<lambda>(min_stock, g).
     bindE (randint 500 5000 g) (\<lambda>(max_stock, g).
     bindE (randint 1 12 g) (\<lambda>(rm, g).
     bindE (randint 1 28 g) (\<lambda>(rd, g).
     bindE (randint 0 2 g) (\<lambda>(ey, g).
     bindE (randint 1 12 g) (\<lambda>(em, g).
     bindE (randint 1 28 g) (\<lambda>(ed, g).
     bindE (choice [''Warehouse A'', ''Warehouse B'', ''Cold Room'', ''Shelf Storage''] g) (\<lambda>(storage, g).
     Inr (\<lparr>it_sku = sku,
           it_item_name = product_name,
           it_category = category,
           it_unit_of_measure = unit,
           it_current_stock = current_stock,
           it_min_stock_level = min_stock,
           it_max_stock_level = max_stock,
           it_average_unit_cost = unit_cost,
           it_total_value = py_round (of_int current_stock * unit_cost) 2,
           it_last_restock_date = Date 2024 rm rd,
           it_expiry_date = Date (2025 + ey) em ed,
           it_storage_location = storage\<rparr>, g)))))))))))))))"

definition generate_inventory_items ::
  "batch list \<Rightarrow> formulation list \<Rightarrow> rng \<Rightarrow> py_error + inventory_item list \<times> rng" where
  "generate_inventory_items batches_df formulations_df g =
     bindE (columns_of formulations_df) (\<lambda>fs.
     let formulation_to_product = py_dict (zip (map fm_formulation_id fs) (map fm_product_name fs));
         formulation_to_category = py_dict (zip (map fm_formulation_id fs) (map fm_product_category fs))
     in
     bindE (for_each (\<lambda>(formulation_id, product_name) (inventory_items, g).
              bindE (inventory_item_row batches_df formulations_df formulation_to_category
                       formulation_id product_name g) (\<lambda>(row, g).
              Inr (inventory_items @ [row], g)))
            formulation_to_product ([], g)) (\<lambda>(inventory_items, g).
     Inr (inventory_items, g)))"

subsection \<open>\<^verbatim>\<open>generate_inventory_transactions\<close>\<close>

record inventory_transaction =
  tx_transaction_id :: string
  tx_transaction_date :: date
  tx_transaction_type :: string
  tx_sku :: string
  tx_batch_id :: string
  tx_quantity :: int
  tx_unit_cost :: real
  tx_total_value :: real
  tx_location_id :: string
  tx_reference_document :: string
  tx_employee_id :: string

definition inventory_transaction_keys :: "(string \<times> (inventory_transaction \<Rightarrow> cell)) list" where
  "inventory_transaction_keys = [
     (''transaction_id'', \<lambda>r. CStr (tx_transaction_id r)),
     (''transaction_date'', \<lambda>r. CDate (tx_transaction_date r)),
     (''transaction_type'', \<lambda>r. CStr (tx_transaction_type r)),
     (''sku'', \<lambda>r. CStr (tx_sku r)), (''batch_id'', \<lambda>r. CStr (tx_batch_id r)),
     (''quantity'', \<lambda>r. CInt (tx_quantity r)), (''unit_cost'', \<lambda>r. CFloat (tx_unit_cost r)),
     (''total_value'', \<lambda>r. CFloat (tx_total_value r)),
     (''location_id'', \<lambda>r. CStr (tx_location_id r)),
     (''reference_document'', \<lambda>r. CStr (tx_reference_document r)),
     (''employee_id'', \<lambda>r. CStr (tx_employee_id r))]"

text \<open>The body of the first loop: one production receipt for a completed batch whose
  product has an inventory item.\<close>

definition production_receipt ::
  "inventory_item list \<Rightarrow> (string \<times> string) list \<Rightarrow> string list \<Rightarrow> batch
     \<Rightarrow> inventory_transaction list \<times> int \<times> rng \<Rightarrow> py_error + inventory_transaction list \<times> int \<times> rng" where
  "production_receipt inventory_items_df formulation_to_product inventory_staff b s =
     (case s of (transactions, transaction_id, g) \<Rightarrow>
     if pb_status b = ''Completed'' then
       let formulation_id = pb_formulation_id b;
           product_name = (case map_of formulation_to_product formulation_id of Some p \<Rightarrow> p | None \<Rightarrow> '''')
       in
       if product_name \<noteq> '''' then
         bindE (columns_of inventory_items_df) (\<lambda>items.
         (case filter (\<lambda>i. it_item_name i = product_name) items of
            [] \<Rightarrow> Inr (transactions, transaction_id, g)
          | inventory_item # _ \<Rightarrow>
             let sku = it_sku inventory_item;
                 unit_cost = it_average_unit_cost inventory_item
             in
             bindE (choice inventory_staff g) (\<lambda>(employee, g).
             Inr (transactions @ [\<lparr>
                    tx_transaction_id = ''INV-'' @ fmt_0d 6 transaction_id,
                    tx_transaction_date = pb_production_date b,
                    tx_transaction_type = ''Production Receipt'',
                    tx_sku = sku,
                    tx_batch_id = pb_batch_id b,
                    tx_quantity = pb_actual_quantity b,
                    tx_unit_cost = unit_cost,
                    tx_total_value = py_round (of_int (pb_actual_quantity b) * unit_cost) 2,
                    tx_location_id = ''WH01'',
                    tx_reference_document = ''PROD-'' @ pb_batch_id b,
                    tx_employee_id = employee\<rparr>],
                  transaction_id + 1, g))))
       else Inr (transactions, transaction_id, g)
     else Inr (transactions, transaction_id, g))"

text \<open>The inner loop of the second pass: one sales issue of \<open>sales_qty\<close> units.\<close>

definition sales_issue ::
  "inventory_item \<Rightarrow> int \<Rightarrow> string list
     \<Rightarrow> inventory_transaction list \<times> int \<times> rng \<Rightarrow> py_error + inventory_transaction list \<times> int \<times> rng" where
  "sales_issue item sales_qty inventory_staff s =
     (case s of (transactions, transaction_id, g) \<Rightarrow>
     bindE (randint 1 12 g) (\<lambda>(m, g).
     bindE (randint 1 28 g) (\<lambda>(d, g).
     bindE (randint 1 100 g) (\<lambda>(batch_no, g).
     bindE (randint 1000 9999 g) (\<lambda>(sale_no, g).
     bindE (choice inventory_staff g) (\<lambda>(employee, g).
     Inr (transactions @ [\<lparr>
            tx_transaction_id = ''INV-'' @ fmt_0d 6 transaction_id,
            tx_transaction_date = Date 2024 m d,
            tx_transaction_type = ''Sales Issue'',
            tx_sku = it_sku item,
            tx_batch_id = ''BATCH-'' @ fmt_0d 4 batch_no,
            tx_quantity = - sales_qty,
            tx_unit_cost = it_average_unit_cost item,
            tx_total_value = py_round (of_int (- sales_qty) * it_average_unit_cost item) 2,
            tx_location_id = ''WH01'',
            tx_reference_document = ''SALE-'' @ str_int sale_no,
            tx_employee_id = employee\<rparr>],
          transaction_id + 1, g)))))))"

definition sales_issues ::
  "string list \<Rightarrow> inventory_item
     \<Rightarrow> inventory_transaction list \<times> int \<times> rng \<Rightarrow> py_error + inventory_transaction list \<times> int \<times> rng" where
  "sales_issues inventory_staff item s =
     (case s of (transactions, transaction_id, g) \<Rightarrow>
     if it_current_stock item > 0 then
       bindE (randint 1 (min 100 (it_current_stock item)) g) (\<lambda>(sales_qty, g).
       bindE (randint 1 5 g) (\<lambda>(n, g).
       for_each (\<lambda>i. sales_issue item sales_qty inventory_staff) [0..<nat n]
         (transactions, transaction_id, g)))
     else Inr (transactions, transaction_id, g))"

definition stock_transfer ::
  "inventory_item list \<Rightarrow> string list
     \<Rightarrow> inventory_transaction list \<times> int \<times> rng \<Rightarrow> py_error + inventory_transaction list \<times> int \<times> rng" where
  "stock_transfer inventory_items_df inventory_staff s =
     (case s of (transactions, transaction_id, g) \<Rightarrow>
     bindE (choice inventory_items_df g) (\<lambda>(item, g).
     bindE (randint 1 12 g) (\<lambda>(m, g).
     bindE (randint 1 28 g) (\<lambda>(d, g).
     bindE (randint 1 100 g) (\<lambda>(batch_no, g).
     bindE (randint 10 100 g) (\<lambda>(quantity, g).
     bindE (randint 10 100 g) (\<lambda>(valued_quantity, g).
     bindE (choice [''WH01'', ''WH02'', ''STORE01''] g) (\<lambda>(location, g).
     bindE (randint 1000 9999 g) (\<lambda>(transfer_no, g).
     bindE (choice inventory_staff g) (\<lambda>(employee, g).
     Inr (transactions @ [\<lparr>
            tx_transaction_id = ''INV-'' @ fmt_0d 6 transaction_id,
            tx_transaction_date = Date 2024 m d,
            tx_transaction_type = ''Stock Transfer'',
            tx_sku = it_sku item,
            tx_batch_id = ''BATCH-'' @ fmt_0d 4 batch_no,
            tx_quantity = quantity,
            tx_unit_cost = it_average_unit_cost item,
            tx_total_value = py_round (of_int valued_quantity * it_average_unit_cost item) 2,
            tx_location_id = location,
            tx_reference_document = ''TRF-'' @ str_int transfer_no,
            tx_employee_id = employee\<rparr>],
          transaction_id + 1, g)))))))))))"

definition generate_inventory_transactions ::
  "inventory_item list \<Rightarrow> batch list \<Rightarrow> employee list \<Rightarrow> formulation list \<Rightarrow> rng
     \<Rightarrow> py_error + inventory_transaction list \<times> rng" where
  "generate_inventory_transactions inventory_items_df batches_df employees_df formulations_df g =
     bindE (columns_of employees_df) (\<lambda>es.
     let inventory_staff = map em_employee_id
           (filter (\<lambda>e. em_department e \<in> set [''Supply Chain'', ''Production'']) es) in
     bindE (columns_of formulations_df) (\<lambda>fs.
     let formulation_to_product = py_dict (zip (map fm_formulation_id fs) (map fm_product_name fs)) in
     bindE (for_each (production_receipt inventory_items_df formulation_to_product inventory_staff)
              batches_df ([], 1, g)) (\<lambda>s.
     bindE (for_each (sales_issues inventory_staff) inventory_items_df s) (\<lambda>s.
     bindE (for_each (\<lambda>i. stock_transfer inventory_items_df inventory_staff) [0..<20] s)
       (\<lambda>(transactions, transaction_id, g).
     Inr (transactions, g))))))"

subsection \<open>\<^verbatim>\<open>generate_sales_transactions\<close>\<close>

record sale =
  sa_transaction_id :: string
  sa_transaction_date :: datetime
  sa_customer_id :: string
  sa_sku :: string
  sa_quantity :: int
  sa_unit_price :: real
  sa_total_amount :: real
  sa_discount_amount :: real
  sa_tax_amount :: real
  sa_net_amount :: real
  sa_payment_method :: string
  sa_payment_status :: string
  sa_sales_channel :: string
  sa_employee_id :: string

definition sale_keys :: "(string \<times> (sale \<Rightarrow> cell)) list" where
  "sale_keys = [
     (''transaction_id'', \<lambda>r. CStr (sa_transaction_id r)),
     (''transaction_date'', \<lambda>r. CDateTime (sa_transaction_date r)),
     (''customer_id'', \<lambda>r. CStr (sa_customer_id r)), (''sku'', \<lambda>r. CStr (sa_sku r)),
     (''quantity'', \<lambda>r. CInt (sa_quantity r)), (''unit_price'', \<lambda>r. CFloat (sa_unit_price r)),
     (''total_amount'', \<lambda>r. CFloat (sa_total_amount r)),
     (''discount_amount'', \<lambda>r. CFloat (sa_discount_amount r)),
     (''tax_amount'', \<lambda>r. CFloat (sa_tax_amount r)),
     (''net_amount'', \<lambda>r. CFloat (sa_net_amount r)),
     (''payment_method'', \<lambda>r. CStr (sa_payment_method r)),
     (''payment_status'', \<lambda>r. CStr (sa_payment_status r)),
     (''sales_channel'', \<lambda>r. CStr (sa_sales_channel r)),
     (''employee_id'', \<lambda>r. CStr (sa_employee_id r))]"

definition sale_row ::
  "customer list \<Rightarrow> inventory_item list \<Rightarrow> string list \<Rightarrow> int \<Rightarrow> rng \<Rightarrow> py_error + sale \<times> rng" where
  "sale_row customers inventory_items sales_staff transaction_id g =
     bindE (choice customers g) (\<lambda>(customer, g).
     bindE (choice inventory_items g) (\<lambda>(item, g).
     bindE (uniform (15 / 10) 3 g) (\<lambda>(markup, g).
     let unit_price = py_round (it_average_unit_cost item * markup) 2 in
     bindE (randint 1 20 g) (\<lambda>(quantity, g).
     let total_amount = py_round (unit_price * of_int quantity) 2 in
     bindE (if cu_customer_type customer = ''Business''
            then uniform (5 / 100) (20 / 100) g
            else uniform 0 (10 / 100) g) (\<lambda>(discount_pct, g).
     let discount_amount = py_round (total_amount * discount_pct) 2;
         tax_amount = py_round ((total_amount - discount_amount) * (16 / 100)) 2;
         net_amount = py_round (total_amount - discount_amount + tax_amount) 2
     in
     bindE (randint 1 12 g) (\<lambda>(mo, g).
     bindE (randint 1 28 g) (\<lambda>(d, g).
     bindE (randint 8 20 g) (\<lambda>(h, g).
     bindE (randint 0 59 g) (\<lambda>(mi, g).
     bindE (choice [''M-Pesa'', ''Cash'', ''Bank Transfer'', ''Credit Card''] g) (\<lambda>(payment_method, g).
     bindE (choice [''Paid'', ''Paid'', ''Paid'', ''Pending'', ''Partial''] g) (\<lambda>(payment_status, g).
     bindE (choice [''Retail Store'', ''Online'', ''Wholesale'', ''Distributor''] g) (\<lambda>(sales_channel, g).
     bindE (choice sales_staff g) (\<lambda>(employee, g).
     Inr (\<lparr>sa_transaction_id = ''SALE-'' @ fmt_0d 6 transaction_id,
           sa_transaction_date = DateTime (Date 2024 mo d) (Time h mi 0),
           sa_customer_id = cu_customer_id customer,
           sa_sku = it_sku item,
           sa_quantity = quantity,
           sa_unit_price = unit_price,
           sa_total_amount = total_amount,
           sa_discount_amount = discount_amount,
           sa_tax_amount = tax_amount,
           sa_net_amount = net_amount,
           sa_payment_method = payment_method,
           sa_payment_status = payment_status,
           sa_sales_channel = sales_channel,
           sa_employee_id = employee\<rparr>, g))))))))))))))"

definition generate_sales_transactions ::
  "inventory_item list \<Rightarrow> customer list \<Rightarrow> employee list \<Rightarrow> rng \<Rightarrow> py_error + sale list \<times> rng" where
  "generate_sales_transactions inventory_items_df customers_df employees_df g =
     bindE (columns_of employees_df) (\<lambda>es.
     let sales_staff = map em_employee_id (filter (\<lambda>e. em_department e = ''Sales & Marketing'') es) in
     bindE (for_each (\<lambda>i (sales, transaction_id, g).
              bindE (sale_row customers_df inventory_items_df sales_staff transaction_id g) (\<lambda>(row, g).
              Inr (sales @ [row], transaction_id + 1, g)))
            [0..<500] ([], 1, g)) (\<lambda>(sales, transaction_id, g).
     Inr (sales, g)))"

section \<open>The generators of the remaining tables\<close>

subsection \<open>\<^verbatim>\<open>generate_ecommerce_orders\<close>\<close>

record ecommerce_order =
  eo_order_id :: string
  eo_order_date :: datetime
  eo_customer_id :: string
  eo_total_amount :: real
  eo_shipping_amount :: real
  eo_tax_amount :: real
  eo_discount_amount :: real
  eo_net_amount :: real
  eo_payment_status :: string
  eo_order_status :: string
  eo_shipping_method :: string
  eo_tracking_number :: string
  eo_website_session_id :: string

definition ecommerce_order_keys :: "(string \<times> (ecommerce_order \<Rightarrow> cell)) list" where
  "ecommerce_order_keys = [
     (''order_id'', \<lambda>r. CStr (eo_order_id r)), (''order_date'', \<lambda>r. CDateTime (eo_order_date r)),
     (''customer_id'', \<lambda>r. CStr (eo_customer_id r)),
     (''total_amount'', \<lambda>r. CFloat (eo_total_amount r)),
     (''shipping_amount'', \<lambda>r. CFloat (eo_shipping_amount r)),
     (''tax_amount'', \<lambda>r. CFloat (eo_tax_amount r)),
     (''discount_amount'', \<lambda>r. CFloat (eo_discount_amount r)),
     (''net_amount'', \<lambda>r. CFloat (eo_net_amount r)),
     (''payment_status'', \<lambda>r. CStr (eo_payment_status r)),
     (''order_status'', \<lambda>r. CStr (eo_order_status r)),
     (''shipping_method'', \<lambda>r. CStr (eo_shipping_method r)),
     (''tracking_number'', \<lambda>r. CStr (eo_tracking_number r)),
     (''website_session_id'', \<lambda>r. CStr (eo_website_session_id r))]"

definition ecommerce_order_row :: "customer list \<Rightarrow> int \<Rightarrow> rng \<Rightarrow> py_error + ecommerce_order \<times> rng" where
  "ecommerce_order_row b2c_customers order_id g =
     bindE (choice b2c_customers g) (\<lambda>(customer, g).
     bindE (randint 1 12 g) (\<lambda>(mo, g).
     bindE (randint 1 28 g) (\<lambda>(d, g).
     bindE (randint 0 23 g) (\<lambda>(h, g).
     bindE (randint 0 59 g) (\<lambda>(mi, g).
     bindE (uniform 1000 50000 g) (\<lambda>(subtotal_raw, g).
     let subtotal = py_round subtotal_raw 2 in
     bindE (uniform 200 2000 g) (\<lambda>(shipping_raw, g).
     let shipping = py_round shipping_raw 2;
         tax = py_round (subtotal * (16 / 100)) 2
     in
     bindE (uniform 0 (15 / 100) g) (\<lambda>(discount_pct, g).
     let discount = py_round (subtotal * discount_pct) 2;
         net_amount = py_round (subtotal + shipping + tax - discount) 2
     in
     bindE (choice [''Paid'', ''Paid'', ''Paid'', ''Pending'', ''Failed''] g) (\<lambda>(payment_status, g).
     bindE (choice [''Delivered'', ''Shipped'', ''Processing'', ''Cancelled''] g) (\<lambda>(order_status, g).
     bindE (choice [''Standard'', ''Express'', ''Pickup'', ''Courier''] g) (\<lambda>(shipping_method, g).
     bindE (randint 1000000000 9999999999 g) (\<lambda>(tracking, g).
     bindE (randint 100000 999999 g) (\<lambda>(session, g).
     Inr (\<lparr>eo_order_id = ''ECOMM-'' @ fmt_0d 6 order_id,
           eo_order_date = DateTime (Date 2024 mo d) (Time h mi 0),
           eo_customer_id = cu_customer_id customer,
           eo_total_amount = subtotal,
           eo_shipping_amount = shipping,
           eo_tax_amount = tax,
           eo_discount_amount = discount,
           eo_net_amount = net_amount,
           eo_payment_status = payment_status,
           eo_order_status = order_status,
           eo_shipping_method = shipping_method,
           eo_tracking_number = ''TRACK-'' @ str_int tracking,
           eo_website_session_id = ''SESS-'' @ str_int session\<rparr>, g))))))))))))))"

definition generate_ecommerce_orders ::
  "customer list \<Rightarrow> sale list \<Rightarrow> rng \<Rightarrow> py_error + ecommerce_order list \<times> rng" where
  "generate_ecommerce_orders customers_df sales_df g =
     bindE (columns_of customers_df) (\<lambda>cs.
     let b2c_customers = filter (\<lambda>c. cu_customer_type c = ''Individual'') cs in
     bindE (for_each (\<lambda>i (orders, order_id, g).
              bindE (ecommerce_order_row b2c_customers order_id g) (\<lambda>(row, g).
              Inr (orders @ [row], order_id + 1, g)))
            [0..<200] ([], 1, g)) (\<lambda>(orders, order_id, g).
     Inr (orders, g)))"

subsection \<open>\<^verbatim>\<open>generate_attendance_data\<close>\<close>

record attendance =
  at_attendance_id :: string
  at_employee_id :: string
  at_date :: date
  at_shift_start :: time
  at_shift_end :: time
  at_actual_start :: time
  at_actual_end :: time
  at_hours_worked :: real
  at_overtime_hours :: real
  at_attendance_status :: string
  at_remarks :: string

definition attendance_keys :: "(string \<times> (attendance \<Rightarrow> cell)) list" where
  "attendance_keys = [
     (''attendance_id'', \<lambda>r. CStr (at_attendance_id r)),
     (''employee_id'', \<lambda>r. CStr (at_employee_id r)), (''date'', \<lambda>r. CDate (at_date r)),
     (''shift_start'', \<lambda>r. CTime (at_shift_start r)), (''shift_end'', \<lambda>r. CTime (at_shift_end r)),
     (''actual_start'', \<lambda>r. CTime (at_actual_start r)),
     (''actual_end'', \<lambda>r. CTime (at_actual_end r)),
     (''hours_worked'', \<lambda>r. CFloat (at_hours_worked r)),
     (''overtime_hours'', \<lambda>r. CFloat (at_overtime_hours r)),
     (''attendance_status'', \<lambda>r. CStr (at_attendance_status r)),
     (''remarks'', \<lambda>r. CStr (at_remarks r))]"

text \<open>The body of the inner loop from the shift onwards, for a day that is not skipped.\<close>

definition attendance_row :: "date \<Rightarrow> employee \<Rightarrow> int \<Rightarrow> rng \<Rightarrow> py_error + attendance \<times> rng" where
  "attendance_row current_date employee attendance_id g =
     (let shift_start = (if em_shift_pattern employee = ''Morning'' then Time 8 0 0
                         else if em_shift_pattern employee = ''Evening'' then Time 14 0 0
                         else Time 8 0 0);
          shift_end = (if em_shift_pattern employee = ''Morning'' then Time 17 0 0
                       else if em_shift_pattern employee = ''Evening'' then Time 23 0 0
                       else Time 17 0 0)
      in
      bindE (random_float g) (\<lambda>(late_draw, g).
      bindE (if late_draw > 8 / 10 then randint 0 30 g else Inr (0, g)) (\<lambda>(late_minutes, g).
      bindE (random_float g) (\<lambda>(early_draw, g).
      bindE (if early_draw > 9 / 10 then randint 0 60 g else Inr (0, g)) (\<lambda>(early_leave, g).
      let actual_start = time_add_minutes shift_start late_minutes;
          actual_end = time_add_minutes shift_end (- early_leave);
          hours_worked = of_int (seconds_between actual_start actual_end) / 3600;
          overtime = max 0 (hours_worked - 9)
      in
      bindE (choice [''Present'', ''Present'', ''Present'', ''Late'', ''Half Day''] g) (\<lambda>(attendance_status, g).
      bindE (choice ['''', '''', ''Traffic'', ''Family Emergency'', ''Medical Appointment''] g) (\<lambda>(remarks, g).
      Inr (\<lparr>at_attendance_id = ''ATT-'' @ fmt_0d 6 attendance_id,
            at_employee_id = em_employee_id employee,
            at_date = current_date,
            at_shift_start = shift_start,
            at_shift_end = shift_end,
            at_actual_start = actual_start,
            at_actual_end = actual_end,
            at_hours_worked = py_round hours_worked 2,
            at_overtime_hours = py_round overtime 2,
            at_attendance_status = attendance_status,
            at_remarks = remarks\<rparr>, g))))))))"

definition attendance_step ::
  "date \<Rightarrow> employee \<Rightarrow> attendance list \<times> int \<times> rng \<Rightarrow> py_error + attendance list \<times> int \<times> rng" where
  "attendance_step current_date employee s =
     (case s of (attendance, attendance_id, g) \<Rightarrow>
     bindE (if weekday current_date \<ge> 5
            then bindE (random_float g) (\<lambda>(r, g). Inr (r > 1 / 10, g))
            else Inr (False, g)) (\<lambda>(skip, g).
     if skip then Inr (attendance, attendance_id, g)
     else bindE (attendance_row current_date employee attendance_id g) (\<lambda>(row, g).
          Inr (attendance @ [row], attendance_id + 1, g))))"

definition generate_attendance_data :: "employee list \<Rightarrow> rng \<Rightarrow> py_error + attendance list \<times> rng" where
  "generate_attendance_data employees_df g =
     bindE (columns_of employees_df) (\<lambda>es.
     let active_employees = filter (\<lambda>e. em_active e = True) es in
     bindE (for_each (\<lambda>day_offset.
              for_each (attendance_step (date_add_days (Date 2024 6 1) day_offset)) active_employees)
            [0..<30] ([], 1, g)) (\<lambda>(attendance, attendance_id, g).
     Inr (attendance, g)))"

subsection \<open>\<^verbatim>\<open>generate_financial_accounts\<close>\<close>

record account =
  ac_account_code :: string
  ac_account_name :: string
  ac_account_type :: string
  ac_category :: string
  ac_normal_balance :: string
  ac_opening_balance :: real
  ac_current_balance :: real
  ac_parent_account :: string
  ac_is_active :: bool

definition account_keys :: "(string \<times> (account \<Rightarrow> cell)) list" where
  "account_keys = [
     (''account_code'', \<lambda>r. CStr (ac_account_code r)),
     (''account_name'', \<lambda>r. CStr (ac_account_name r)),
     (''account_type'', \<lambda>r. CStr (ac_account_type r)), (''category'', \<lambda>r. CStr (ac_category r)),
     (''normal_balance'', \<lambda>r. CStr (ac_normal_balance r)),
     (''opening_balance'', \<lambda>r. CFloat (ac_opening_balance r)),
     (''current_balance'', \<lambda>r. CFloat (ac_current_balance r)),
     (''parent_account'', \<lambda>r. CStr (ac_parent_account r)),
     (''is_active'', \<lambda>r. CBool (ac_is_active r))]"

definition account_structure :: "(string \<times> (string \<times> string list) list) list" where
  "account_structure = [
     (''Assets'', [
        (''Current Assets'', [''Cash'', ''Accounts Receivable'', ''Inventory'', ''Prepaid Expenses'']),
        (''Fixed Assets'', [''Equipment'', ''Vehicles'', ''Buildings'', ''Furniture & Fixtures''])]),
     (''Liabilities'', [
        (''Current Liabilities'', [''Accounts Payable'', ''Accrued Expenses'', ''Short-term Loans'']),
        (''Long-term Liabilities'', [''Long-term Loans'', ''Mortgage Payable''])]),
     (''Equity'', [
        (''Owner'' @ [CHR 0x27] @ ''s Equity'', [''Capital'', ''Retained Earnings'', ''Drawings''])]),
     (''Revenue'', [
        (''Sales Revenue'', [''Product Sales'', ''Service Revenue'', ''Online Sales'']),
        (''Other Revenue'', [''Interest Income'', ''Discounts Received''])]),
     (''Expenses'', [
        (''Cost of Goods Sold'', [''Raw Materials'', ''Direct Labor'', ''Manufacturing Overhead'']),
        (''Operating Expenses'', [''Salaries'', ''Rent'', ''Utilities'', ''Marketing'', ''Office Supplies'']),
        (''Financial Expenses'', [''Bank Charges'', ''Interest Expense''])])]"

definition account_row :: "string \<Rightarrow> string \<Rightarrow> string \<Rightarrow> int \<Rightarrow> rng \<Rightarrow> py_error + account \<times> rng" where
  "account_row main_category subcategory account_name account_code g =
     (let normal_balance = (if main_category \<in> set [''Assets'', ''Expenses''] then ''Debit'' else ''Credit'') in
      bindE (if main_category = ''Assets'' then uniform 100000 1000000 g
             else if main_category = ''Liabilities'' then uniform 50000 500000 g
             else if main_category = ''Equity'' then uniform 500000 2000000 g
             else if main_category = ''Revenue'' then uniform 0 100000 g
             else uniform 0 500000 g) (\<lambda>(opening_balance, g).
      bindE (uniform (8 / 10) (12 / 10) g) (\<lambda>(drift, g).
      Inr (\<lparr>ac_account_code = str_int account_code,
            ac_account_name = account_name,
            ac_account_type = main_category,
            ac_category = subcategory,
            ac_normal_balance = normal_balance,
            ac_opening_balance = py_round opening_balance 2,
            ac_current_balance = py_round (opening_balance * drift) 2,
            ac_parent_account = '''',
            ac_is_active = True\<rparr>, g))))"

definition generate_financial_accounts :: "rng \<Rightarrow> py_error + account list \<times> rng" where
  "generate_financial_accounts g =
     bindE (for_each (\<lambda>(main_category, subcategories).
              for_each (\<lambda>(subcategory, account_names).
                 for_each (\<lambda>account_name (accounts, account_code, g).
                    bindE (account_row main_category subcategory account_name account_code g) (\<lambda>(row, g).
                    Inr (accounts @ [row], account_code + 1, g)))
                  account_names)
               subcategories)
            account_structure ([], 1000, g)) (\<lambda>(accounts, account_code, g).
     Inr (accounts, g))"

subsection \<open>\<^verbatim>\<open>generate_financial_transactions\<close>\<close>

record financial_transaction =
  ft_transaction_id :: string
  ft_transaction_date :: date
  ft_transaction_type :: string
  ft_account_code :: string
  ft_description :: string
  ft_debit_amount :: real
  ft_credit_amount :: real
  ft_balance :: real
  ft_reference_number :: string
  ft_vendor_customer_id :: string
  ft_payment_method :: string
  ft_status :: string

definition financial_transaction_keys :: "(string \<times> (financial_transaction \<Rightarrow> cell)) list" where
  "financial_transaction_keys = [
     (''transaction_id'', \<lambda>r. CStr (ft_transaction_id r)),
     (''transaction_date'', \<lambda>r. CDate (ft_transaction_date r)),
     (''transaction_type'', \<lambda>r. CStr (ft_transaction_type r)),
     (''account_code'', \<lambda>r. CStr (ft_account_code r)),
     (''description'', \<lambda>r. CStr (ft_description r)),
     (''debit_amount'', \<lambda>r. CFloat (ft_debit_amount r)),
     (''credit_amount'', \<lambda>r. CFloat (ft_credit_amount r)),
     (''balance'', \<lambda>r. CFloat (ft_balance r)),
     (''reference_number'', \<lambda>r. CStr (ft_reference_number r)),
     (''vendor_customer_id'', \<lambda>r. CStr (ft_vendor_customer_id r)),
     (''payment_method'', \<lambda>r. CStr (ft_payment_method r)), (''status'', \<lambda>r. CStr (ft_status r))]"

text \<open>\<^verbatim>\<open>next(x for x in xs if p(x))\<close>.\<close>

definition next_where :: "('a \<Rightarrow> bool) \<Rightarrow> 'a list \<Rightarrow> py_error + 'a" where
  "next_where p xs = (case filter p xs of [] \<Rightarrow> Inl StopIteration | x # _ \<Rightarrow> Inr x)"

definition sale_postings ::
  "account list \<Rightarrow> sale
     \<Rightarrow> financial_transaction list \<times> int \<times> rng \<Rightarrow> py_error + financial_transaction list \<times> int \<times> rng" where
  "sale_postings accounts sale s =
     (case s of (transactions, transaction_id, g) \<Rightarrow>
     if sa_payment_status sale = ''Paid'' then
       bindE (next_where (\<lambda>acc. contains ''Cash'' (ac_account_name acc) \<or> contains ''Bank'' (ac_account_name acc))
                accounts) (\<lambda>cash_account.
       bindE (next_where (\<lambda>acc. contains ''Sales'' (ac_account_name acc)) accounts) (\<lambda>sales_account.
       Inr (transactions @ [
              \<lparr>ft_transaction_id = ''FIN-'' @ fmt_0d 6 transaction_id,
               ft_transaction_date = date_part (sa_transaction_date sale),
               ft_transaction_type = ''Sales Receipt'',
               ft_account_code = ac_account_code cash_account,
               ft_description = ''Sale to '' @ sa_customer_id sale,
               ft_debit_amount = sa_net_amount sale,
               ft_credit_amount = 0,
               ft_balance = ac_current_balance cash_account + sa_net_amount sale,
               ft_reference_number = sa_transaction_id sale,
               ft_vendor_customer_id = sa_customer_id sale,
               ft_payment_method = sa_payment_method sale,
               ft_status = ''Posted''\<rparr>,
              \<lparr>ft_transaction_id = ''FIN-'' @ fmt_0d 6 (transaction_id + 1),
               ft_transaction_date = date_part (sa_transaction_date sale),
               ft_transaction_type = ''Sales Revenue'',
               ft_account_code = ac_account_code sales_account,
               ft_description = ''Sale to '' @ sa_customer_id sale,
               ft_debit_amount = 0,
               ft_credit_amount = sa_net_amount sale - sa_tax_amount sale,
               ft_balance = ac_current_balance sales_account + (sa_net_amount sale - sa_tax_amount sale),
               ft_reference_number = sa_transaction_id sale,
               ft_vendor_customer_id = sa_customer_id sale,
               ft_payment_method = '''',
               ft_status = ''Posted''\<rparr>],
            transaction_id + 1 + 1, g)))
     else Inr (transactions, transaction_id, g))"

definition expense_posting ::
  "account list
     \<Rightarrow> financial_transaction list \<times> int \<times> rng \<Rightarrow> py_error + financial_transaction list \<times> int \<times> rng" where
  "expense_posting accounts s =
     (case s of (transactions, transaction_id, g) \<Rightarrow>
     bindE (randint 1 12 g) (\<lambda>(m, g).
     bindE (randint 1 28 g) (\<lambda>(d, g).
     bindE (choice (filter (\<lambda>acc. ac_account_type acc = ''Expenses'') accounts) g) (\<lambda>(expense_account, g).
     bindE (uniform 1000 50000 g) (\<lambda>(amount_raw, g).
     let amount = py_round amount_raw 2 in
     bindE (choice [''Office Supplies'', ''Utility Bill'', ''Marketing Campaign'', ''Equipment Maintenance''] g)
       (\<lambda>(description, g).
     bindE (randint 1000 9999 g) (\<lambda>(expense_no, g).
     bindE (randint 1 50 g) (\<lambda>(vendor_no, g).
     bindE (choice [''Bank Transfer'', ''M-Pesa'', ''Cheque''] g) (\<lambda>(payment_method, g).
     Inr (transactions @ [
            \<lparr>ft_transaction_id = ''FIN-'' @ fmt_0d 6 transaction_id,
             ft_transaction_date = Date 2024 m d,
             ft_transaction_type = ''Expense Payment'',
             ft_account_code = ac_account_code expense_account,
             ft_description = description,
             ft_debit_amount = amount,
             ft_credit_amount = 0,
             ft_balance = ac_current_balance expense_account + amount,
             ft_reference_number = ''EXP-'' @ str_int expense_no,
             ft_vendor_customer_id = ''VEND-'' @ fmt_0d 3 vendor_no,
             ft_payment_method = payment_method,
             ft_status = ''Posted''\<rparr>],
          transaction_id + 1, g))))))))))"

definition generate_financial_transactions ::
  "account list \<Rightarrow> sale list \<Rightarrow> rng \<Rightarrow> py_error + financial_transaction list \<times> rng" where
  "generate_financial_transactions accounts_df sales_df g =
     bindE (for_each (sale_postings accounts_df) sales_df ([], 1, g)) (\<lambda>s.
     bindE (for_each (\<lambda>i. expense_posting accounts_df) [0..<100] s) (\<lambda>(transactions, transaction_id, g).
     Inr (transactions, g)))"

subsection \<open>\<^verbatim>\<open>generate_website_traffic\<close>\<close>

record page_view =
  wt_session_id :: string
  wt_timestamp :: datetime
  wt_page_url :: string
  wt_referrer :: string
  wt_device_type :: string
  wt_location :: string
  wt_session_duration_seconds :: int
  wt_page_views :: int
  wt_converted :: bool
  wt_customer_id :: string

definition page_view_keys :: "(string \<times> (page_view \<Rightarrow> cell)) list" where
  "page_view_keys = [
     (''session_id'', \<lambda>r. CStr (wt_session_id r)), (''timestamp'', \<lambda>r. CDateTime (wt_timestamp r)),
     (''page_url'', \<lambda>r. CStr (wt_page_url r)), (''referrer'', \<lambda>r. CStr (wt_referrer r)),
     (''device_type'', \<lambda>r. CStr (wt_device_type r)), (''location'', \<lambda>r. CStr (wt_location r)),
     (''session_duration_seconds'', \<lambda>r. CInt (wt_session_duration_seconds r)),
     (''page_views'', \<lambda>r. CInt (wt_page_views r)), (''converted'', \<lambda>r. CBool (wt_converted r)),
     (''customer_id'', \<lambda>r. CStr (wt_customer_id r))]"

definition pages :: "string list" where
  "pages = [''/'', ''/products'', ''/products/skincare'', ''/products/haircare'', ''/about'',
     ''/contact'', ''/cart'', ''/checkout'', ''/blog'']"

definition page_view_row :: "int \<Rightarrow> datetime \<Rightarrow> int \<Rightarrow> int \<Rightarrow> rng \<Rightarrow> py_error + page_view \<times> rng" where
  "page_view_row session_id session_start page_views session_duration g =
     bindE (randint 0 session_duration g) (\<lambda>(offset, g).
     let view_time = datetime_add_seconds session_start offset in
     bindE (random_float g) (\<lambda>(r, g).
     let converted = (r < 5 / 100) in
     bindE (if converted
            then bindE (randint 1000 1050 g) (\<lambda>(n, g). Inr (''B2C-'' @ fmt_0d 4 n, g))
            else Inr ('''', g)) (\<lambda>(customer_id, g).
     bindE (choice pages g) (\<lambda>(page_url, g).
     bindE (choice [''Direct'', ''Google'', ''Facebook'', ''Instagram'', ''Email''] g) (\<lambda>(referrer, g).
     bindE (choice [''Desktop'', ''Mobile'', ''Tablet''] g) (\<lambda>(device_type, g).
     bindE (choice [''Nairobi'', ''Mombasa'', ''Kisumu'', ''Nakuru'', ''Eldoret'', ''International''] g)
       (\<lambda>(location, g).
     Inr (\<lparr>wt_session_id = ''SESS-'' @ fmt_0d 6 session_id,
           wt_timestamp = view_time,
           wt_page_url = page_url,
           wt_referrer = referrer,
           wt_device_type = device_type,
           wt_location = location,
           wt_session_duration_seconds = session_duration,
           wt_page_views = page_views,
           wt_converted = converted,
           wt_customer_id = customer_id\<rparr>, g))))))))"

definition session_views ::
  "date \<Rightarrow> page_view list \<times> int \<times> rng \<Rightarrow> py_error + page_view list \<times> int \<times> rng" where
  "session_views current_date s =
     (case s of (traffic, session_id, g) \<Rightarrow>
     bindE (randint 8 22 g) (\<lambda>(h, g).
     bindE (randint 0 59 g) (\<lambda>(mi, g).
     let session_start = DateTime current_date (Time h mi 0) in
     bindE (randint 1 10 g) (\<lambda>(page_views, g).
     bindE (randint 30 1800 g) (\<lambda>(session_duration, g).
     bindE (for_each (\<lambda>view (traffic, g).
              bindE (page_view_row session_id session_start page_views session_duration g) (\<lambda>(row, g).
              Inr (traffic @ [row], g)))
            [0..<nat page_views] (traffic, g)) (\<lambda>(traffic, g).
     Inr (traffic, session_id + 1, g)))))))"

definition generate_website_traffic :: "rng \<Rightarrow> py_error + page_view list \<times> rng" where
  "generate_website_traffic g =
     bindE (for_each (\<lambda>day_offset (traffic, session_id, g).
              bindE (randint 50 200 g) (\<lambda>(n, g).
              for_each (\<lambda>i. session_views (date_add_days (Date 2024 6 1) day_offset)) [0..<nat n]
                (traffic, session_id, g)))
            [0..<30] ([], 1, g)) (\<lambda>(traffic, session_id, g).
     Inr (traffic, g))"

subsection \<open>\<^verbatim>\<open>generate_production_analytics\<close>\<close>

record production_analytic =
  pa_analytics_id :: string
  pa_date :: date
  pa_batch_id :: string
  pa_equipment_id :: string
  pa_oee_percentage :: real
  pa_yield_rate :: real
  pa_cycle_time_hours :: real
  pa_downtime_hours :: real
  pa_quality_score :: real
  pa_cost_variance :: real
  pa_energy_consumption :: real
  pa_scrap_percentage :: real

definition production_analytic_keys :: "(string \<times> (production_analytic \<Rightarrow> cell)) list" where
  "production_analytic_keys = [
     (''analytics_id'', \<lambda>r. CStr (pa_analytics_id r)), (''date'', \<lambda>r. CDate (pa_date r)),
     (''batch_id'', \<lambda>r. CStr (pa_batch_id r)), (''equipment_id'', \<lambda>r. CStr (pa_equipment_id r)),
     (''oee_percentage'', \<lambda>r. CFloat (pa_oee_percentage r)),
     (''yield_rate'', \<lambda>r. CFloat (pa_yield_rate r)),
     (''cycle_time_hours'', \<lambda>r. CFloat (pa_cycle_time_hours r)),
     (''downtime_hours'', \<lambda>r. CFloat (pa_downtime_hours r)),
     (''quality_score'', \<lambda>r. CFloat (pa_quality_score r)),
     (''cost_variance'', \<lambda>r. CFloat (pa_cost_variance r)),
     (''energy_consumption'', \<lambda>r. CFloat (pa_energy_consumption r)),
     (''scrap_percentage'', \<lambda>r. CFloat (pa_scrap_percentage r))]"

definition production_analytic_step ::
  "batch \<Rightarrow> production_analytic list \<times> int \<times> rng \<Rightarrow> py_error + production_analytic list \<times> int \<times> rng" where
  "production_analytic_step b s =
     (case s of (analytics, analytics_id, g) \<Rightarrow>
     if pb_status b = ''Completed'' then
       bindE (uniform 70 95 g) (\<lambda>(oee, g).
       bindE (uniform (5 / 100) (20 / 100) g) (\<lambda>(downtime_share, g).
       let downtime = pb_completion_time_hours b * downtime_share in
       bindE (uniform (- (1 / 10)) (1 / 10) g) (\<lambda>(variance, g).
       bindE (uniform (5 / 100) (15 / 100) g) (\<lambda>(energy_share, g).
       Inr (analytics @ [
              \<lparr>pa_analytics_id = ''PROD-ANAL-'' @ fmt_0d 4 analytics_id,
               pa_date = pb_production_date b,
               pa_batch_id = pb_batch_id b,
               pa_equipment_id = pb_equipment_id b,
               pa_oee_percentage = py_round oee 2,
               pa_yield_rate = py_round (pb_yield_percentage b) 2,
               pa_cycle_time_hours = py_round (pb_completion_time_hours b) 2,
               pa_downtime_hours = py_round downtime 2,
               pa_quality_score = py_round (pb_quality_score b) 1,
               pa_cost_variance = py_round (variance * pb_total_cost b) 2,
               pa_energy_consumption = py_round (pb_total_cost b * energy_share) 2,
               pa_scrap_percentage = py_round (100 - pb_yield_percentage b) 2\<rparr>],
            analytics_id + 1, g)))))
     else Inr (analytics, analytics_id, g))"

definition generate_production_analytics :: "batch list \<Rightarrow> rng \<Rightarrow> py_error + production_analytic list \<times> rng" where
  "generate_production_analytics batches_df g =
     bindE (for_each production_analytic_step batches_df ([], 1, g)) (\<lambda>(analytics, analytics_id, g).
     Inr (analytics, g))"

subsection \<open>\<^verbatim>\<open>generate_inventory_analytics\<close>\<close>

record inventory_analytic =
  ia_analytics_id :: string
  ia_date :: date
  ia_sku :: string
  ia_category :: string
  ia_stock_turnover_rate :: real
  ia_days_inventory_outstanding :: real
  ia_stockout_frequency :: real
  ia_holding_cost_percentage :: real
  ia_abc_classification :: string
  ia_excess_stock_value :: real
  ia_stockout_value :: real
  ia_forecast_accuracy :: real

definition inventory_analytic_keys :: "(string \<times> (inventory_analytic \<Rightarrow> cell)) list" where
  "inventory_analytic_keys = [
     (''analytics_id'', \<lambda>r. CStr (ia_analytics_id r)), (''date'', \<lambda>r. CDate (ia_date r)),
     (''sku'', \<lambda>r. CStr (ia_sku r)), (''category'', \<lambda>r. CStr (ia_category r)),
     (''stock_turnover_rate'', \<lambda>r. CFloat (ia_stock_turnover_rate r)),
     (''days_inventory_outstanding'', \<lambda>r. CFloat (ia_days_inventory_outstanding r)),
     (''stockout_frequency'', \<lambda>r. CFloat (ia_stockout_frequency r)),
     (''holding_cost_percentage'', \<lambda>r. CFloat (ia_holding_cost_percentage r)),
     (''abc_classification'', \<lambda>r. CStr (ia_abc_classification r)),
     (''excess_stock_value'', \<lambda>r. CFloat (ia_excess_stock_value r)),
     (''stockout_value'', \<lambda>r. CFloat (ia_stockout_value r)),
     (''forecast_accuracy'', \<lambda>r. CFloat (ia_forecast_accuracy r))]"

text \<open>
  The metrics of one item and one month: \<open>total_issues\<close> is the absolute value of the summed
  quantities of the item's ``Sales Issue'' rows up to the analysis date, \<open>avg_inventory\<close>
  the item's current stock. The result is the pair \<open>(turnover_rate, days_inventory)\<close>.
\<close>

definition inventory_metrics :: "int \<Rightarrow> int \<Rightarrow> real \<times> real" where
  "inventory_metrics total_issues avg_inventory =
     (if avg_inventory > 0 then
        (let turnover_rate = of_int total_issues / of_int avg_inventory;
             days_inventory = (if turnover_rate > 0 then 365 / turnover_rate else 365)
         in (turnover_rate, days_inventory))
      else (0, 0))"

definition total_issues_of :: "inventory_transaction list \<Rightarrow> int" where
  "total_issues_of item_transactions =
     \<bar>sum_list (map tx_quantity (filter (\<lambda>t. tx_transaction_type t = ''Sales Issue'') item_transactions))\<bar>"

definition inventory_analytic_step ::
  "inventory_transaction list \<Rightarrow> inventory_item \<Rightarrow> int
     \<Rightarrow> inventory_analytic list \<times> int \<times> rng \<Rightarrow> py_error + inventory_analytic list \<times> int \<times> rng" where
  "inventory_analytic_step inventory_transactions_df item month_no s =
     (case s of (analytics, analytics_id, g) \<Rightarrow>
     let analysis_date = Date 2024 month_no 15 in
     bindE (columns_of inventory_transactions_df) (\<lambda>txs.
     let item_transactions =
           filter (\<lambda>t. tx_sku t = it_sku item \<and> date_le (tx_transaction_date t) analysis_date) txs in
     if item_transactions \<noteq> [] then
       (case inventory_metrics (total_issues_of item_transactions) (it_current_stock item) of
          (turnover_rate, days_inventory) \<Rightarrow>
       let abc_class = (if it_total_value item > 100000 then ''A''
                        else if it_total_value item > 50000 then ''B'' else ''C'')
       in
       bindE (uniform 0 (2 / 10) g) (\<lambda>(stockout_frequency, g).
       bindE (uniform (15 / 100) (35 / 100) g) (\<lambda>(holding_cost, g).
       bindE (uniform 0 (3 / 10) g) (\<lambda>(excess_share, g).
       bindE (uniform 0 (1 / 10) g) (\<lambda>(stockout_share, g).
       bindE (uniform (7 / 10) (95 / 100) g) (\<lambda>(forecast_accuracy, g).
       Inr (analytics @ [
              \<lparr>ia_analytics_id = ''INV-ANAL-'' @ fmt_0d 4 analytics_id,
               ia_date = analysis_date,
               ia_sku = it_sku item,
               ia_category = it_category item,
               ia_stock_turnover_rate = py_round turnover_rate 2,
               ia_days_inventory_outstanding = py_round days_inventory 1,
               ia_stockout_frequency = py_round stockout_frequency 3,
               ia_holding_cost_percentage = py_round holding_cost 2,
               ia_abc_classification = abc_class,
               ia_excess_stock_value = py_round (it_total_value item * excess_share) 2,
               ia_stockout_value = py_round (it_total_value item * stockout_share) 2,
               ia_forecast_accuracy = py_round forecast_accuracy 3\<rparr>],
            analytics_id + 1, g)))))))
     else Inr (analytics, analytics_id, g)))"

definition generate_inventory_analytics ::
  "inventory_item list \<Rightarrow> inventory_transaction list \<Rightarrow> rng \<Rightarrow> py_error + inventory_analytic list \<times> rng" where
  "generate_inventory_analytics inventory_items_df inventory_transactions_df g =
     bindE (for_each (\<lambda>item.
              for_each (inventory_analytic_step inventory_transactions_df item) [1..12])
            inventory_items_df ([], 1, g)) (\<lambda>(analytics, analytics_id, g).
     Inr (analytics, g))"

subsection \<open>\<^verbatim>\<open>generate_audit_logs\<close>\<close>

record audit_log =
  al_log_id :: string
  al_timestamp :: datetime
  al_tenant_id :: string
  al_user_id :: string
  al_user_role :: string
  al_module :: string
  al_action :: string
  al_resource :: string
  al_resource_id :: string
  al_ip_address :: string
  al_success :: bool
  al_details :: string

definition audit_log_keys :: "(string \<times> (audit_log \<Rightarrow> cell)) list" where
  "audit_log_keys = [
     (''log_id'', \<lambda>r. CStr (al_log_id r)), (''timestamp'', \<lambda>r. CDateTime (al_timestamp r)),
     (''tenant_id'', \<lambda>r. CStr (al_tenant_id r)), (''user_id'', \<lambda>r. CStr (al_user_id r)),
     (''user_role'', \<lambda>r. CStr (al_user_role r)), (''module'', \<lambda>r. CStr (al_module r)),
     (''action'', \<lambda>r. CStr (al_action r)), (''resource'', \<lambda>r. CStr (al_resource r)),
     (''resource_id'', \<lambda>r. CStr (al_resource_id r)), (''ip_address'', \<lambda>r. CStr (al_ip_address r)),
     (''success'', \<lambda>r. CBool (al_success r)), (''details'', \<lambda>r. CStr (al_details r))]"

definition actions :: "(string \<times> string list) list" where
  "actions = [
     (''Production'', [''CREATE_BATCH'', ''UPDATE_FORMULATION'', ''VIEW_REPORT'', ''APPROVE_QC'']),
     (''Inventory'', [''ADD_STOCK'', ''ISSUE_STOCK'', ''TRANSFER'', ''ADJUST'']),
     (''Sales'', [''CREATE_ORDER'', ''PROCESS_PAYMENT'', ''ISSUE_INVOICE'', ''VIEW_CUSTOMER'']),
     (''Finance'', [''POST_TRANSACTION'', ''GENERATE_REPORT'', ''APPROVE_PAYMENT'', ''RECONCILE'']),
     (''HR'', [''ADD_EMPLOYEE'', ''UPDATE_SALARY'', ''APPROVE_LEAVE'', ''GENERATE_PAYROLL'']),
     (''System'', [''LOGIN'', ''LOGOUT'', ''CHANGE_SETTING'', ''VIEW_AUDIT''])]"

definition audit_log_row ::
  "string list \<Rightarrow> employee list \<Rightarrow> date \<Rightarrow> int \<Rightarrow> rng \<Rightarrow> py_error + audit_log \<times> rng" where
  "audit_log_row tenant_ids users log_date log_id g =
     bindE (choice users g) (\<lambda>(user, g).
     bindE (choice tenant_ids g) (\<lambda>(tenant, g).
     bindE (if contains ''Manager'' (em_position user)
            then choice [''Production'', ''Inventory'', ''Sales'', ''Finance'', ''HR''] g
            else if contains ''Sales'' (em_position user) then Inr (''Sales'', g)
            else if contains ''Production'' (em_position user) then Inr (''Production'', g)
            else choice [''System'', ''Inventory'', ''HR''] g) (\<lambda>(module, g).
     bindE (choice (case map_of actions module of Some a \<Rightarrow> a | None \<Rightarrow> [''VIEW'', ''UPDATE'']) g)
       (\<lambda>(action, g).
     bindE (randint 1 255 g) (\<lambda>(ip3, g).
     bindE (randint 1 255 g) (\<lambda>(ip4, g).
     let ip = ''192.168.'' @ str_int ip3 @ ''.'' @ str_int ip4 in
     bindE (randint 8 20 g) (\<lambda>(h, g).
     bindE (randint 0 59 g) (\<lambda>(mi, g).
     bindE (randint 0 59 g) (\<lambda>(sec, g).
     bindE (choice [''Batch'', ''Product'', ''Customer'', ''Order'', ''Employee'', ''Transaction''] g)
       (\<lambda>(resource, g).
     bindE (randint 1 100 g) (\<lambda>(batch_no, g).
     bindE (randint 1 50 g) (\<lambda>(prod_no, g).
     bindE (randint 1 100 g) (\<lambda>(cust_no, g).
     bindE (choice [''BATCH-'' @ fmt_0d 4 batch_no, ''PROD-'' @ fmt_0d 4 prod_no,
                    ''CUST-'' @ fmt_0d 4 cust_no] g) (\<lambda>(resource_id, g).
     bindE (choice [True, True, True, False] g) (\<lambda>(success, g).
     Inr (\<lparr>al_log_id = ''AUDIT-'' @ fmt_0d 8 log_id,
           al_timestamp = DateTime log_date (Time h mi sec),
           al_tenant_id = tenant,
           al_user_id = em_employee_id user,
           al_user_role = em_position user,
           al_module = module,
           al_action = action,
           al_resource = resource,
           al_resource_id = resource_id,
           al_ip_address = ip,
           al_success = success,
           al_details = action @ '' operation on '' @ module @ '' module''\<rparr>, g))))))))))))))))"

definition generate_audit_logs ::
  "tenant list \<Rightarrow> employee list \<Rightarrow> sale list \<Rightarrow> rng \<Rightarrow> py_error + audit_log list \<times> rng" where
  "generate_audit_logs tenants_df employees_df sales_df g =
     bindE (columns_of employees_df) (\<lambda>users.
     bindE (for_each (\<lambda>day_offset (logs, log_id, g).
              let log_date = date_add_days (Date 2024 3 1) day_offset in
              bindE (randint 10 50 g) (\<lambda>(n, g).
              for_each (\<lambda>i (logs, log_id, g).
                 bindE (bindE (columns_of tenants_df) (\<lambda>ts.
                        audit_log_row (map tn_tenant_id ts) users log_date log_id g)) (\<lambda>(row, g).
                 Inr (logs @ [row], log_id + 1, g)))
               [0..<nat n] (logs, log_id, g)))
            [0..<90] ([], 1, g)) (\<lambda>(logs, log_id, g).
     Inr (logs, g)))"

section \<open>The pipeline: \<^verbatim>\<open>generate_demo_data\<close>\<close>

text \<open>
  The seventeen generator calls of the \<^verbatim>\<open>try\<close> block, in the order of the source; each
  continues from the state of the random module that the one before it left.
\<close>

record tables =
  dim_tenants :: "tenant list"
  dim_employees :: "employee list"
  dim_formulations :: "formulation list"
  dim_raw_materials :: "raw_material list"
  dim_customers :: "customer list"
  fact_production_batches :: "batch list"
  dim_inventory_items :: "inventory_item list"
  fact_inventory_transactions :: "inventory_transaction list"
  fact_sales_transactions :: "sale list"
  fact_ecommerce_orders :: "ecommerce_order list"
  fact_attendance :: "attendance list"
  dim_accounts :: "account list"
  fact_financial_transactions :: "financial_transaction list"
  fact_website_traffic :: "page_view list"
  fact_production_analytics :: "production_analytic list"
  fact_inventory_analytics :: "inventory_analytic list"
  fact_audit_logs :: "audit_log list"

definition generate_tables :: "rng \<Rightarrow> py_error + tables \<times> rng" where
  "generate_tables g =
     (let tenants_df = generate_tenants_data in
      bindE (generate_employees_data g) (\<lambda>(employees_df, g).
      bindE (generate_formulations_data g) (\<lambda>(formulations_df, g).
      bindE (generate_raw_materials_data g) (\<lambda>(raw_materials_df, g).
      bindE (generate_customers_data g) (\<lambda>(customers_df, g).
      bindE (generate_production_batches formulations_df employees_df g) (\<lambda>(batches_df, g).
      bindE (generate_inventory_items batches_df formulations_df g) (\<lambda>(inventory_items_df, g).
      bindE (generate_inventory_transactions inventory_items_df batches_df employees_df formulations_df g)
        (\<lambda>(inventory_transactions_df, g).
      bindE (generate_sales_transactions inventory_items_df customers_df employees_df g) (\<lambda>(sales_df, g).
      bindE (generate_ecommerce_orders customers_df sales_df g) (\<lambda>(ecommerce_orders_df, g).
      bindE (generate_attendance_data employees_df g) (\<lambda>(attendance_df, g).
      bindE (generate_financial_accounts g) (\<lambda>(accounts_df, g).
      bindE (generate_financial_transactions accounts_df sales_df g) (\<lambda>(financial_transactions_df, g).
      bindE (generate_website_traffic g) (\<lambda>(website_traffic_df, g).
      bindE (generate_production_analytics batches_df g) (\<lambda>(production_analytics_df, g).
      bindE (generate_inventory_analytics inventory_items_df inventory_transactions_df g)
        (\<lambda>(inventory_analytics_df, g).
      bindE (generate_audit_logs tenants_df employees_df sales_df g) (\<lambda>(audit_logs_df, g).
      Inr (\<lparr>dim_tenants = tenants_df,
            dim_employees = employees_df,
            dim_formulations = formulations_df,
            dim_raw_materials = raw_materials_df,
            dim_customers = customers_df,
            fact_production_batches = batches_df,
            dim_inventory_items = inventory_items_df,
            fact_inventory_transactions = inventory_transactions_df,
            fact_sales_transactions = sales_df,
            fact_ecommerce_orders = ecommerce_orders_df,
            fact_attendance = attendance_df,
            dim_accounts = accounts_df,
            fact_financial_transactions = financial_transactions_df,
            fact_website_traffic = website_traffic_df,
            fact_production_analytics = production_analytics_df,
            fact_inventory_analytics = inventory_analytics_df,
            fact_audit_logs = audit_logs_df\<rparr>, g))))))))))))))))))"

text \<open>The dictionary \<^verbatim>\<open>datasets\<close>, in the order of its keys.\<close>

definition datasets_of :: "tables \<Rightarrow> (string \<times> dataframe) list" where
  "datasets_of t = [
     (''dim_tenants'', DataFrame tenant_keys (dim_tenants t)),
     (''dim_employees'', DataFrame employee_keys (dim_employees t)),
     (''dim_formulations'', DataFrame formulation_keys (dim_formulations t)),
     (''dim_raw_materials'', DataFrame raw_material_keys (dim_raw_materials t)),
     (''dim_customers'', DataFrame customer_keys (dim_customers t)),
     (''fact_production_batches'', DataFrame batch_keys (fact_production_batches t)),
     (''dim_inventory_items'', DataFrame inventory_item_keys (dim_inventory_items t)),
     (''fact_inventory_transactions'', DataFrame inventory_transaction_keys (fact_inventory_transactions t)),
     (''fact_sales_transactions'', DataFrame sale_keys (fact_sales_transactions t)),
     (''fact_ecommerce_orders'', DataFrame ecommerce_order_keys (fact_ecommerce_orders t)),
     (''fact_attendance'', DataFrame attendance_keys (fact_attendance t)),
     (''dim_accounts'', DataFrame account_keys (dim_accounts t)),
     (''fact_financial_transactions'', DataFrame financial_transaction_keys (fact_financial_transactions t)),
     (''fact_website_traffic'', DataFrame page_view_keys (fact_website_traffic t)),
     (''fact_production_analytics'', DataFrame production_analytic_keys (fact_production_analytics t)),
     (''fact_inventory_analytics'', DataFrame inventory_analytic_keys (fact_inventory_analytics t)),
     (''fact_audit_logs'', DataFrame audit_log_keys (fact_audit_logs t))]"

text \<open>
  The validation loop: every table is replaced by the table \<^verbatim>\<open>validate_table\<close> returns, and
  its report is copied key by key, which raises \<^verbatim>\<open>KeyError\<close> for a report without
  \<^verbatim>\<open>row_count\<close>.
\<close>

definition validate_step ::
  "pandas \<Rightarrow> string \<times> dataframe \<Rightarrow> (string \<times> dataframe) list \<times> (string \<times> report) list
     \<Rightarrow> py_error + (string \<times> dataframe) list \<times> (string \<times> report) list" where
  "validate_step P entry s =
     (case entry of (table_name, df) \<Rightarrow>
     (case s of (datasets, reports) \<Rightarrow>
     (case validate_table P table_name df of (clean_df, rep) \<Rightarrow>
     (case row_count rep of
        None \<Rightarrow> Inl KeyError
      | Some n \<Rightarrow>
         Inr (dict_set table_name clean_df datasets,
              dict_set table_name
                \<lparr>row_count = Some n, errors = errors rep, warnings = warnings rep, ok = ok rep\<rparr>
                reports)))))"

datatype demo_error = SeedError | GenerationError py_error

text \<open>
  \<^verbatim>\<open>generate_demo_data(seed)\<close>, run when the random module is in state \<open>g0\<close>.
  \<^verbatim>\<open>np.random.seed(seed)\<close> stands before the \<^verbatim>\<open>try\<close> block and raises \<^verbatim>\<open>ValueError\<close> for a
  seed outside \<open>[0, 2\<^sup>3\<^sup>2 - 1]\<close>; \<^verbatim>\<open>random.seed(seed)\<close> then replaces the state by
  \<open>seed_stream seed\<close>. An exception inside the block is raised again as
  \<^verbatim>\<open>Exception("Error generating demo data: ...")\<close>. The result is what the call returns or
  raises, with the state of the random module it leaves on return. The progress lines it
  prints are the same text in every run and are left out.
\<close>

definition generate_demo_data ::
  "pandas \<Rightarrow> (int \<Rightarrow> rng) \<Rightarrow> int \<Rightarrow> rng
     \<Rightarrow> demo_error + ((string \<times> dataframe) list \<times> (string \<times> report) list) \<times> rng" where
  "generate_demo_data P seed_stream seed g0 =
     (if seed < 0 \<or> 2 ^ 32 \<le> seed then Inl SeedError
      else
        (case bindE (generate_tables (seed_stream seed)) (\<lambda>(t, g).
              bindE (for_each (validate_step P) (datasets_of t) (datasets_of t, [])) (\<lambda>(datasets, reports).
              Inr ((datasets, reports), g))) of
           Inl e \<Rightarrow> Inl (GenerationError e)
         | Inr r \<Rightarrow> Inr r))"

section \<open>Notions used to state the properties\<close>

text \<open>
  What the theorems about validated tables assume of pandas: a column of cells that all have
  the type a conversion expects is converted without an exception, and a timestamp of a
  year \<^verbatim>\<open>datetime64[ns]\<close> can hold (1678 to 2261) is accepted by \<^verbatim>\<open>to_datetime\<close>.
\<close>

definition supported_date :: "date \<Rightarrow> bool" where
  "supported_date d = (1678 \<le> year d \<and> year d \<le> 2261)"

definition pandas_sane :: "pandas \<Rightarrow> bool" where
  "pandas_sane P =
     ((\<forall>xs. to_numeric_coerce P (map CInt xs) = Inr (map CInt xs)) \<and>
      (\<forall>xs. to_numeric_coerce P (map CFloat xs) = Inr (map CFloat xs)) \<and>
      (\<forall>v xs. fillna P v (map CInt xs) = Inr (map CInt xs)) \<and>
      (\<forall>v xs. fillna P v (map CFloat xs) = Inr (map CFloat xs)) \<and>
      (\<forall>xs. astype_int P (map CInt xs) = Inr (map CInt xs)) \<and>
      (\<forall>xs. astype_float P (map CFloat xs) = Inr (map CFloat xs)) \<and>
      (\<forall>xs. astype_bool P (map CBool xs) = Inr (map CBool xs)) \<and>
      (\<forall>xs. astype_str P (map CStr xs) = Inr (map CStr xs)) \<and>
      (\<forall>xs. astype_str P (map CTime xs) = Inr (map (\<lambda>t. CStr (str_time t)) xs)) \<and>
      (\<forall>xs. list_all supported_date xs \<longrightarrow>
            to_datetime P (map CDate xs) = Inr (map (\<lambda>d. CDateTime (DateTime d midnight)) xs)) \<and>
      (\<forall>xs. list_all (\<lambda>t. supported_date (date_part t)) xs \<longrightarrow>
            to_datetime P (map CDateTime xs) = Inr (map CDateTime xs)) \<and>
      (\<forall>xs. dt_date P (map CDateTime xs) = Inr (map (\<lambda>t. CDate (date_part t)) xs)))"

text \<open>The tables and the reports that the validation loop leaves for the generated tables \<open>t\<close>.\<close>

definition validated :: "pandas \<Rightarrow> tables \<Rightarrow> (string \<times> dataframe) list" where
  "validated P t = map (\<lambda>(n, df). (n, fst (validate_table P n df))) (datasets_of t)"

definition reports_of :: "pandas \<Rightarrow> tables \<Rightarrow> (string \<times> report) list" where
  "reports_of P t = map (\<lambda>(n, df). (n, snd (validate_table P n df))) (datasets_of t)"

section \<open>Properties of the validator\<close>

lemma bindE_simps [simp]:
  "bindE (Inl e) f = Inl e" "bindE (Inr x) f = f x"
  by (simp_all add: bindE_def)

lemma SCHEMAS_distinct:
  "map_of SCHEMAS table_name = Some schema \<Longrightarrow> distinct (map fst (required schema))"
  by (auto simp: SCHEMAS_def split: if_splits)

lemma map_of_set_col:
  "map_of (set_col col v cs) c = (if c = col then Some v else map_of cs c)"
  by (induction cs) auto

lemma map_fst_set_col:
  "map_of cs col = Some w \<Longrightarrow> map fst (set_col col v cs) = map fst cs"
  by (induction cs) (auto split: if_splits)

lemma df_get_df_set: "df_get (df_set df col v) c = (if c = col then Some v else df_get df c)"
  by (simp add: df_get_def df_set_def map_of_set_col)

lemma df_columns_df_set:
  "df_get df col = Some w \<Longrightarrow> df_columns (df_set df col v) = df_columns df"
  by (simp add: df_get_def df_set_def df_columns_def map_fst_set_col)

lemma df_len_df_set [simp]: "df_len (df_set df col v) = df_len df"
  by (simp add: df_set_def)

lemma check_type_simp:
  "check_type P (col, ty) (df, errs) =
     (case df_get df col of
        None \<Rightarrow> (df, errs)
      | Some c \<Rightarrow>
         (case convert P ty c of
            Inr c' \<Rightarrow> (df_set df col c', errs)
          | Inl e \<Rightarrow> (df, errs @ [''Type conversion failed for '' @ col @ '': '' @ e])))"
  by (simp add: check_type_def)

lemma fold_check_type:
  "distinct (map fst req) \<Longrightarrow>
   fold (check_type P) req (df, errs) = (df', errs') \<Longrightarrow>
     errs' = errs @ conversion_errors P req df \<and>
     df_len df' = df_len df \<and>
     df_columns df' = df_columns df \<and>
     (\<forall>col. df_get df' col = converted_col P req df col)"
proof (induction req arbitrary: df errs)
  case Nil
  then show ?case by (auto simp: conversion_errors_def converted_col_def split: option.splits)
next
  case (Cons ct req)
  obtain col ty where ct: "ct = (col, ty)" by (cases ct)
  from Cons.prems(1) ct have d: "distinct (map fst req)" and notin: "col \<notin> fst ` set req" by auto
  then have mo: "map_of req col = None" by (simp add: map_of_eq_None_iff)
  show ?case
  proof (cases "df_get df col")
    case None
    with Cons.prems(2) ct have f: "fold (check_type P) req (df, errs) = (df', errs')"
      by (simp add: check_type_simp)
    from Cons.IH[OF d f] None ct mo show ?thesis
      by (auto simp: conversion_errors_def converted_col_def split: option.splits)
  next
    case (Some c)
    show ?thesis
    proof (cases "convert P ty c")
      case (Inl e)
      with Cons.prems(2) ct Some
      have f: "fold (check_type P) req (df, errs @ [''Type conversion failed for '' @ col @ '': '' @ e]) = (df', errs')"
        by (simp add: check_type_simp)
      from Cons.IH[OF d f] Some Inl ct mo show ?thesis
        by (auto simp: conversion_errors_def converted_col_def split: option.splits)
    next
      case (Inr c')
      with Cons.prems(2) ct Some
      have f: "fold (check_type P) req (df_set df col c', errs) = (df', errs')"
        by (simp add: check_type_simp)
      from notin have notin': "\<And>b. (col, b) \<notin> set req" by force
      have ce: "conversion_errors P req (df_set df col c') = conversion_errors P req df"
        unfolding conversion_errors_def using notin'
        by (intro arg_cong[where f = concat] map_cong) (auto simp: df_get_df_set)
      from Cons.IH[OF d f] Some Inr ct mo ce show ?thesis
        by (auto simp: conversion_errors_def converted_col_def df_get_df_set df_columns_df_set
            split: option.splits)
    qed
  qed
qed

lemma validate_table_Some:
  "map_of SCHEMAS table_name = Some schema \<Longrightarrow>
   validate_table P table_name df =
     (case fold (check_type P) (required schema)
        (df, if missing_cols_of schema df \<noteq> []
             then [''Missing columns: '' @ set_repr P (missing_cols_of schema df)] else []) of
       (df', errs1) \<Rightarrow>
         (df', \<lparr>row_count = Some (df_len df'), errors = errs1,
            warnings = (if filter (\<lambda>c. c \<notin> set (map fst (required schema))) (df_columns df) \<noteq> []
                        then [''Extra columns: '' @ set_repr P
                               (filter (\<lambda>c. c \<notin> set (map fst (required schema))) (df_columns df))]
                        else []) @ null_warnings P df' (map fst (required schema)),
            ok = (length errs1 = 0)\<rparr>))"
  by (simp add: validate_table_def Let_def missing_cols_of_def)

lemma validate_table_known:
  assumes "map_of SCHEMAS table_name = Some schema"
    and "validate_table P table_name df = (df', r)"
  shows "errors r = (if missing_cols_of schema df \<noteq> []
                     then [''Missing columns: '' @ set_repr P (missing_cols_of schema df)] else [])
                    @ conversion_errors P (required schema) df"
    and "ok r = (errors r = [])"
    and "df_len df' = df_len df"
    and "df_columns df' = df_columns df"
    and "df_get df' col = converted_col P (required schema) df col"
    and "row_count r = Some (df_len df)"
proof -
  let ?e0 = "(if missing_cols_of schema df \<noteq> []
               then [''Missing columns: '' @ set_repr P (missing_cols_of schema df)] else [])"
  obtain d e where f: "fold (check_type P) (required schema) (df, ?e0) = (d, e)"
    by (cases "fold (check_type P) (required schema) (df, ?e0)")
  from fold_check_type[OF SCHEMAS_distinct[OF assms(1)] f]
  have e: "e = ?e0 @ conversion_errors P (required schema) df"
    and l: "df_len d = df_len df" and c: "df_columns d = df_columns df"
    and g: "\<And>col. df_get d col = converted_col P (required schema) df col"
    by auto
  from assms(2) have d: "df' = d" and r: "errors r = e" "ok r = (length e = 0)" "row_count r = Some (df_len d)"
    unfolding validate_table_Some[OF assms(1)] f by auto
  show "errors r = ?e0 @ conversion_errors P (required schema) df" using r e by simp
  show "ok r = (errors r = [])" using r by simp
  show "df_len df' = df_len df" using d l by simp
  show "df_columns df' = df_columns df" using d c by simp
  show "df_get df' col = converted_col P (required schema) df col" using d g by simp
  show "row_count r = Some (df_len df)" using r l by simp
qed


lemma str_nat_numeral [simp]:
  "str_nat (numeral k) = (if (numeral k :: nat) < 10 then [''0123456789'' ! numeral k]
     else str_nat (numeral k div 10) @ [''0123456789'' ! (numeral k mod 10)])"
  by (rule str_nat.simps)

lemma str_nat_0 [simp]: "str_nat 0 = ''0''"
  by (simp add: str_nat.simps)

lemma str_nat_1 [simp]: "str_nat (Suc 0) = ''1''"
  by (simp add: str_nat.simps)

lemma replicate_numeral_Cons [simp]: "replicate (numeral k) x = x # replicate (pred_numeral k) x"
  by (simp add: numeral_eq_Suc)

text \<open>
  Claim C4. For a table name that is not a key of the schema registry, \<^verbatim>\<open>validate_table\<close>
  returns the input table as it was given, no column converted, together with a report
  that has \<open>ok = False\<close> and exactly one error, \<^verbatim>\<open>"Unknown table"\<close>.
\<close>

theorem validate_table_unknown:
  "table_name \<notin> set (map fst SCHEMAS) \<Longrightarrow>
   validate_table P table_name df =
     (df, \<lparr>row_count = None, errors = [''Unknown table''], warnings = [], ok = False\<rparr>)"
proof -
  assume "table_name \<notin> set (map fst SCHEMAS)"
  then have "map_of SCHEMAS table_name = None"
    by (simp add: map_of_eq_None_iff)
  then show ?thesis
    by (simp add: validate_table_def)
qed

theorem validate_table_unknown_witness:
  "''unknown_table'' \<notin> set (map fst SCHEMAS) \<and>
   validate_table pandas_strict ''unknown_table'' example_df =
     (example_df, \<lparr>row_count = None, errors = [''Unknown table''], warnings = [], ok = False\<rparr>)"
proof -
  have h: "''unknown_table'' \<notin> set (map fst SCHEMAS)"
    by (simp add: SCHEMAS_def)
  from h validate_table_unknown[OF h] show ?thesis by simp
qed

text \<open>
  Claim C5. For a known table name and any input table, the report's \<open>ok\<close> is true exactly
  when its error list is empty, and the error list holds nothing but the missing-columns
  message and the messages of conversions that raised: extra columns and null values only
  reach the warning list, so \<open>ok\<close> is decided by missing columns and failed conversions alone.
\<close>

theorem validate_table_ok_iff_no_errors:
  assumes "map_of SCHEMAS table_name = Some schema"
  shows "ok (snd (validate_table P table_name df)) = (errors (snd (validate_table P table_name df)) = []) \<and>
         errors (snd (validate_table P table_name df)) =
           (if missing_cols_of schema df \<noteq> []
            then [''Missing columns: '' @ set_repr P (missing_cols_of schema df)] else [])
           @ conversion_errors P (required schema) df \<and>
         ok (snd (validate_table P table_name df)) =
           (missing_cols_of schema df = [] \<and> conversion_errors P (required schema) df = [])"
proof -
  obtain df' r where v: "validate_table P table_name df = (df', r)"
    by (cases "validate_table P table_name df")
  from validate_table_known(1,2)[OF assms v] v show ?thesis
    by auto
qed

lemma map_of_SCHEMAS_formulations:
  "map_of SCHEMAS ''dim_formulations'' = Some \<lparr>required = [
      (''formulation_id'', ''str''), (''product_name'', ''str''), (''product_category'', ''str''),
      (''version'', ''str''), (''status'', ''str''), (''created_date'', ''date''),
      (''expected_yield_percentage'', ''float''), (''production_cost_per_unit'', ''float''),
      (''target_cycle_time_hours'', ''float''), (''quality_standards'', ''str'')]\<rparr>"
  by (simp add: SCHEMAS_def)

lemma validate_nulls_and_extras:
  "snd (validate_table pandas_strict ''dim_formulations'' nulls_and_extras_df) =
     \<lparr>row_count = Some 1, errors = [],
      warnings = [''Extra columns: {'' @ [CHR 0x27] @ ''notes'' @ [CHR 0x27] @ ''}'',
                  ''Column created_date has 1 null values''],
      ok = True\<rparr>"
  by (simp add: validate_table_def map_of_SCHEMAS_formulations nulls_and_extras_df_def Let_def
      df_columns_def check_type_def df_get_def df_set_def convert_def pandas_strict_def
      null_warnings_def set_repr_def strict_to_datetime_def strict_dt_date_def strict_numeric_def
      strict_float_def strict_str_def)

theorem validate_table_ok_iff_no_errors_witness:
  "map_of SCHEMAS ''dim_formulations'' \<noteq> None \<and>
   ok (snd (validate_table pandas_strict ''dim_formulations'' nulls_and_extras_df)) \<and>
   errors (snd (validate_table pandas_strict ''dim_formulations'' nulls_and_extras_df)) = [] \<and>
   length (warnings (snd (validate_table pandas_strict ''dim_formulations'' nulls_and_extras_df))) = 2"
  using validate_table_ok_iff_no_errors[OF map_of_SCHEMAS_formulations, of pandas_strict nulls_and_extras_df]
  by (simp add: validate_nulls_and_extras map_of_SCHEMAS_formulations)

text \<open>
  Claim C9, as amended. For a known table name and an input table that lacks a required
  column, the report has \<open>ok = False\<close>, and the table returned with it is the input with the
  same index and the same columns in the same order, where a required column that is
  present holds its converted cells when the conversion succeeded and its original cells
  when the conversion raised, and every other column is as it was.
\<close>

theorem validate_table_missing_column:
  assumes "map_of SCHEMAS table_name = Some schema"
    and "missing_cols_of schema df \<noteq> []"
  shows "\<not> ok (snd (validate_table P table_name df)) \<and>
         errors (snd (validate_table P table_name df)) \<noteq> [] \<and>
         df_len (fst (validate_table P table_name df)) = df_len df \<and>
         df_columns (fst (validate_table P table_name df)) = df_columns df \<and>
         (\<forall>col. df_get (fst (validate_table P table_name df)) col =
                  converted_col P (required schema) df col)"
proof -
  obtain df' r where v: "validate_table P table_name df = (df', r)"
    by (cases "validate_table P table_name df")
  from validate_table_known[OF assms(1) v] assms(2) v show ?thesis
    by auto
qed

lemma validate_bad_date:
  "validate_table pandas_strict ''dim_formulations'' bad_date_df =
     (bad_date_df,
      \<lparr>row_count = Some 1,
       errors = [''Missing columns: '' @ set_repr pandas_strict
                   [''formulation_id'', ''product_name'', ''product_category'', ''version'', ''status'',
                    ''expected_yield_percentage'', ''production_cost_per_unit'',
                    ''target_cycle_time_hours'', ''quality_standards''],
                 ''Type conversion failed for created_date: Unknown datetime string format, unable to parse: not a date''],
       warnings = [], ok = False\<rparr>)"
  by (simp add: validate_table_def map_of_SCHEMAS_formulations bad_date_df_def Let_def
      df_columns_def check_type_def df_get_def df_set_def convert_def pandas_strict_def
      null_warnings_def strict_to_datetime_def)

theorem validate_table_missing_column_witness:
  "missing_cols_of \<lparr>required = [
      (''formulation_id'', ''str''), (''product_name'', ''str''), (''product_category'', ''str''),
      (''version'', ''str''), (''status'', ''str''), (''created_date'', ''date''),
      (''expected_yield_percentage'', ''float''), (''production_cost_per_unit'', ''float''),
      (''target_cycle_time_hours'', ''float''), (''quality_standards'', ''str'')]\<rparr> bad_date_df \<noteq> [] \<and>
   \<not> ok (snd (validate_table pandas_strict ''dim_formulations'' bad_date_df)) \<and>
   df_get (fst (validate_table pandas_strict ''dim_formulations'' bad_date_df)) ''created_date''
     = Some [CStr ''not a date'']"
proof -
  have m: "missing_cols_of \<lparr>required = [
      (''formulation_id'', ''str''), (''product_name'', ''str''), (''product_category'', ''str''),
      (''version'', ''str''), (''status'', ''str''), (''created_date'', ''date''),
      (''expected_yield_percentage'', ''float''), (''production_cost_per_unit'', ''float''),
      (''target_cycle_time_hours'', ''float''), (''quality_standards'', ''str'')]\<rparr> bad_date_df \<noteq> []"
    by (simp add: missing_cols_of_def bad_date_df_def df_columns_def)
  from validate_table_missing_column[OF map_of_SCHEMAS_formulations m, of pandas_strict] m
  show ?thesis
    by (simp add: converted_col_def bad_date_df_def df_get_def convert_def pandas_strict_def
        strict_to_datetime_def)
qed

text \<open>
  The claim as first stated fails: with the required column \<^verbatim>\<open>created_date\<close> holding a
  string that is no date (and the other required columns missing), the conversion raises,
  the column is not converted, and the table comes back exactly as it was given.
\<close>

theorem validate_table_unconverted_column:
  "map_of SCHEMAS ''dim_formulations'' \<noteq> None \<and>
   ''formulation_id'' \<notin> set (df_columns bad_date_df) \<and>
   df_get bad_date_df ''created_date'' = Some [CStr ''not a date''] \<and>
   \<not> ok (snd (validate_table pandas_strict ''dim_formulations'' bad_date_df)) \<and>
   (\<nexists>c'. convert pandas_strict ''date'' [CStr ''not a date''] = Inr c') \<and>
   fst (validate_table pandas_strict ''dim_formulations'' bad_date_df) = bad_date_df"
  by (simp add: validate_bad_date map_of_SCHEMAS_formulations)
     (simp add: bad_date_df_def df_columns_def df_get_def convert_def pandas_strict_def
        strict_to_datetime_def)

section \<open>Properties of the random module and of loops\<close>

lemma bindE_InrD: "bindE m f = Inr y \<Longrightarrow> \<exists>x. m = Inr x \<and> f x = Inr y"
  by (cases m) (simp_all add: bindE_def)

lemma bindE_InrE:
  assumes "bindE m f = Inr y"
  obtains x where "m = Inr x" and "f x = Inr y"
  using assms by (cases m) (simp_all add: bindE_def)

lemma randint_Inr:
  "randint a b g = Inr (v, g') \<Longrightarrow> a \<le> v \<and> v \<le> b \<and> g' = advance g"
proof -
  assume h: "randint a b g = Inr (v, g')"
  then have ab: "a \<le> b" by (auto simp: randint_def split: if_splits)
  from h ab have v: "v = a + int (g 0 mod nat (b - a + 1))" and g: "g' = advance g"
    by (auto simp: randint_def randbelow_def)
  have "g 0 mod nat (b - a + 1) < nat (b - a + 1)" using ab by (intro mod_less_divisor) simp
  then have "int (g 0 mod nat (b - a + 1)) < int (nat (b - a + 1))" by (simp only: of_nat_less_iff)
  also have "int (nat (b - a + 1)) = b - a + 1" using ab by simp
  finally show ?thesis using v g by simp
qed

lemma randint_ok: "a \<le> b \<Longrightarrow> \<exists>v. randint a b g = Inr (v, advance g) \<and> a \<le> v \<and> v \<le> b"
proof -
  assume ab: "a \<le> b"
  then have e: "randint a b g = Inr (a + int (g 0 mod nat (b - a + 1)), advance g)"
    by (simp add: randint_def randbelow_def)
  from randint_Inr[OF e] e show ?thesis by blast
qed

lemma choice_Inr:
  "choice xs g = Inr (x, g') \<Longrightarrow> x \<in> set xs \<and> g' = advance g"
  by (auto simp: choice_def randbelow_def split: if_splits)

lemma choice_ok: "xs \<noteq> [] \<Longrightarrow> \<exists>x. choice xs g = Inr (x, advance g) \<and> x \<in> set xs"
  by (auto simp: choice_def randbelow_def)

lemma random_float_Inr:
  "random_float g = Inr (r, g') \<Longrightarrow> 0 \<le> r \<and> r < 1 \<and> g' = advance g"
proof -
  assume "random_float g = Inr (r, g')"
  then have r: "r = real (g 0 mod 2 ^ 53) / 2 ^ 53" and g: "g' = advance g"
    by (auto simp: random_float_def)
  have "g 0 mod 2 ^ 53 < (2 ^ 53 :: nat)" by simp
  then have "real (g 0 mod 2 ^ 53) < 2 ^ 53"
    by (metis of_nat_less_iff of_nat_numeral of_nat_power)
  with r g show ?thesis by (simp add: divide_less_eq)
qed

lemma random_float_ok: "\<exists>r. random_float g = Inr (r, advance g) \<and> 0 \<le> r \<and> r < 1"
proof -
  have e: "random_float g = Inr (real (g 0 mod 2 ^ 53) / 2 ^ 53, advance g)"
    by (simp add: random_float_def)
  from random_float_Inr[OF e] e show ?thesis by blast
qed

lemma uniform_Inr:
  assumes "uniform a b g = Inr (x, g')" and "a \<le> b"
  shows "a \<le> x \<and> x \<le> b \<and> g' = advance g"
proof -
  from assms(1) obtain r where r: "random_float g = Inr (r, g')" and x: "x = a + (b - a) * r"
    by (auto simp: uniform_def elim!: bindE_InrE)
  from random_float_Inr[OF r] have r01: "0 \<le> r" "r < 1" and g: "g' = advance g" by auto
  have "0 \<le> (b - a) * r" using assms(2) r01 by simp
  moreover have "(b - a) * r \<le> (b - a) * 1" using assms(2) r01 by (intro mult_left_mono) auto
  ultimately show ?thesis using x g by simp
qed

lemma uniform_ok: "\<exists>x. uniform a b g = Inr (x, advance g)"
  by (simp add: uniform_def random_float_def)

lemma for_each_inv:
  assumes "for_each body xs s = Inr s'" and "I s"
    and "\<And>x s s'. x \<in> set xs \<Longrightarrow> I s \<Longrightarrow> body x s = Inr s' \<Longrightarrow> I s'"
  shows "I s'"
  using assms
proof (induction xs arbitrary: s)
  case Nil
  then show ?case by simp
next
  case (Cons x xs)
  from Cons.prems(1) obtain s1 where b: "body x s = Inr s1" and r: "for_each body xs s1 = Inr s'"
    by (auto elim!: bindE_InrE)
  have "I s1" using Cons.prems(3)[OF _ Cons.prems(2) b] by simp
  then show ?case using Cons.IH[OF r] Cons.prems(3) by auto
qed

lemma for_each_ok:
  assumes "I s"
    and "\<And>x s. x \<in> set xs \<Longrightarrow> I s \<Longrightarrow> \<exists>s'. body x s = Inr s' \<and> I s'"
  shows "\<exists>s'. for_each body xs s = Inr s' \<and> I s'"
  using assms
proof (induction xs arbitrary: s)
  case Nil
  then show ?case by simp
next
  case (Cons x xs)
  from Cons.prems(2)[OF _ Cons.prems(1), of x] obtain s1 where b: "body x s = Inr s1" and i: "I s1"
    by auto
  from Cons.IH[OF i] Cons.prems(2) obtain s' where "for_each body xs s1 = Inr s'" "I s'"
    by auto
  with b show ?case by auto
qed

lemma round_half_even_error: "\<bar>of_int (round_half_even x) - x\<bar> \<le> 1 / 2"
  unfolding round_half_even_def by (auto simp: abs_le_iff)

lemma py_round_error: "\<bar>py_round x n - x\<bar> \<le> 1 / (2 * 10 ^ n)"
proof -
  have "\<bar>of_int (round_half_even (x * 10 ^ n)) - x * 10 ^ n\<bar> \<le> 1 / 2"
    by (rule round_half_even_error)
  then have "\<bar>of_int (round_half_even (x * 10 ^ n)) - x * 10 ^ n\<bar> / 10 ^ n \<le> (1 / 2) / 10 ^ n"
    by (intro divide_right_mono) auto
  moreover have "py_round x n - x = (of_int (round_half_even (x * 10 ^ n)) - x * 10 ^ n) / 10 ^ n"
    by (simp add: py_round_def diff_divide_distrib)
  then have "\<bar>of_int (round_half_even (x * 10 ^ n)) - x * 10 ^ n\<bar> / 10 ^ n
      = \<bar>py_round x n - x\<bar>"
    by simp
  ultimately show ?thesis by simp
qed

lemma bindE_eq_Inr_iff: "(bindE m f = Inr y) = (\<exists>x. m = Inr x \<and> f x = Inr y)"
  by (cases m) (simp_all add: bindE_def)


lemma randint_eq:
  "a \<le> b \<Longrightarrow> randint a b g = Inr (a + int (g 0 mod nat (b - a + 1)), advance g)"
  by (simp add: randint_def randbelow_def)

lemma choice_eq:
  "xs \<noteq> [] \<Longrightarrow> choice xs g = Inr (xs ! (g 0 mod length xs), advance g)"
  by (simp add: choice_def randbelow_def)

lemma uniform_eq:
  "uniform a b g = Inr (a + (b - a) * (real (g 0 mod 2 ^ 53) / 2 ^ 53), advance g)"
  by (simp add: uniform_def random_float_def)

lemma for_each_rows:
  assumes "for_each body xs (rows, c, g) = Inr (rows', c', g')"
    and "\<forall>r\<in>set rows. Q r"
    and "\<And>x rows c g rows' c' g'. x \<in> set xs \<Longrightarrow> body x (rows, c, g) = Inr (rows', c', g') \<Longrightarrow>
           \<exists>new. rows' = rows @ new \<and> (\<forall>r\<in>set new. Q r)"
  shows "\<forall>r\<in>set rows'. Q r"
proof -
  have "(\<lambda>(rows, c, g). \<forall>r\<in>set rows. Q r) (rows', c', g')"
  proof (rule for_each_inv[OF assms(1)])
    show "(\<lambda>(rows, c, g). \<forall>r\<in>set rows. Q r) (rows, c, g)" using assms(2) by simp
  next
    fix x s s'
    assume x: "x \<in> set xs" and i: "(\<lambda>(rows, c, g). \<forall>r\<in>set rows. Q r) s" and b: "body x s = Inr s'"
    obtain r1 c1 g1 where s: "s = (r1, c1, g1)" by (cases s)
    obtain r2 c2 g2 where s': "s' = (r2, c2, g2)" by (cases s')
    from assms(3)[OF x b[unfolded s s']] i s s'
    show "(\<lambda>(rows, c, g). \<forall>r\<in>set rows. Q r) s'" by auto
  qed
  then show ?thesis by simp
qed

section \<open>Properties of validated tables and of the validation loop\<close>

lemma map_cells_map:
  assumes "\<And>x. f (c x) = Inr (d x)"
  shows "map_cells f (map c xs) = Inr (map d xs)"
  by (induction xs) (simp_all add: assms)

lemma pandas_strict_sane: "pandas_sane pandas_strict"
  unfolding pandas_sane_def pandas_strict_def
  by (simp add: map_cells_map strict_numeric_def strict_int_def strict_float_def strict_bool_def
      strict_str_def strict_to_datetime_def strict_dt_date_def comp_def)

lemma pandas_sane_maps:
  assumes "pandas_sane P"
  shows "to_numeric_coerce P (map (\<lambda>r. CInt (fi r)) rows) = Inr (map (\<lambda>r. CInt (fi r)) rows)"
    and "to_numeric_coerce P (map (\<lambda>r. CFloat (ff r)) rows) = Inr (map (\<lambda>r. CFloat (ff r)) rows)"
    and "fillna P v (map (\<lambda>r. CInt (fi r)) rows) = Inr (map (\<lambda>r. CInt (fi r)) rows)"
    and "fillna P v (map (\<lambda>r. CFloat (ff r)) rows) = Inr (map (\<lambda>r. CFloat (ff r)) rows)"
    and "astype_int P (map (\<lambda>r. CInt (fi r)) rows) = Inr (map (\<lambda>r. CInt (fi r)) rows)"
    and "astype_float P (map (\<lambda>r. CFloat (ff r)) rows) = Inr (map (\<lambda>r. CFloat (ff r)) rows)"
    and "astype_bool P (map (\<lambda>r. CBool (fb r)) rows) = Inr (map (\<lambda>r. CBool (fb r)) rows)"
    and "astype_str P (map (\<lambda>r. CStr (fs r)) rows) = Inr (map (\<lambda>r. CStr (fs r)) rows)"
    and "astype_str P (map (\<lambda>r. CTime (ft r)) rows) = Inr (map (\<lambda>r. CStr (str_time (ft r))) rows)"
    and "dt_date P (map (\<lambda>r. CDateTime (fdt r)) rows) = Inr (map (\<lambda>r. CDate (date_part (fdt r))) rows)"
proof -
  have "to_numeric_coerce P (map CInt (map fi rows)) = Inr (map CInt (map fi rows))"
    using assms unfolding pandas_sane_def by blast
  then show "to_numeric_coerce P (map (\<lambda>r. CInt (fi r)) rows) = Inr (map (\<lambda>r. CInt (fi r)) rows)"
    by (simp add: comp_def)
  have "to_numeric_coerce P (map CFloat (map ff rows)) = Inr (map CFloat (map ff rows))"
    using assms unfolding pandas_sane_def by blast
  then show "to_numeric_coerce P (map (\<lambda>r. CFloat (ff r)) rows) = Inr (map (\<lambda>r. CFloat (ff r)) rows)"
    by (simp add: comp_def)
  have "fillna P v (map CInt (map fi rows)) = Inr (map CInt (map fi rows))"
    using assms unfolding pandas_sane_def by blast
  then show "fillna P v (map (\<lambda>r. CInt (fi r)) rows) = Inr (map (\<lambda>r. CInt (fi r)) rows)"
    by (simp add: comp_def)
  have "fillna P v (map CFloat (map ff rows)) = Inr (map CFloat (map ff rows))"
    using assms unfolding pandas_sane_def by blast
  then show "fillna P v (map (\<lambda>r. CFloat (ff r)) rows) = Inr (map (\<lambda>r. CFloat (ff r)) rows)"
    by (simp add: comp_def)
  have "astype_int P (map CInt (map fi rows)) = Inr (map CInt (map fi rows))"
    using assms unfolding pandas_sane_def by blast
  then show "astype_int P (map (\<lambda>r. CInt (fi r)) rows) = Inr (map (\<lambda>r. CInt (fi r)) rows)"
    by (simp add: comp_def)
  have "astype_float P (map CFloat (map ff rows)) = Inr (map CFloat (map ff rows))"
    using assms unfolding pandas_sane_def by blast
  then show "astype_float P (map (\<lambda>r. CFloat (ff r)) rows) = Inr (map (\<lambda>r. CFloat (ff r)) rows)"
    by (simp add: comp_def)
  have "astype_bool P (map CBool (map fb rows)) = Inr (map CBool (map fb rows))"
    using assms unfolding pandas_sane_def by blast
  then show "astype_bool P (map (\<lambda>r. CBool (fb r)) rows) = Inr (map (\<lambda>r. CBool (fb r)) rows)"
    by (simp add: comp_def)
  have "astype_str P (map CStr (map fs rows)) = Inr (map CStr (map fs rows))"
    using assms unfolding pandas_sane_def by blast
  then show "astype_str P (map (\<lambda>r. CStr (fs r)) rows) = Inr (map (\<lambda>r. CStr (fs r)) rows)"
    by (simp add: comp_def)
  have "astype_str P (map CTime (map ft rows)) = Inr (map (\<lambda>t. CStr (str_time t)) (map ft rows))"
    using assms unfolding pandas_sane_def by blast
  then show "astype_str P (map (\<lambda>r. CTime (ft r)) rows) = Inr (map (\<lambda>r. CStr (str_time (ft r))) rows)"
    by (simp add: comp_def)
  have "dt_date P (map CDateTime (map fdt rows)) = Inr (map (\<lambda>t. CDate (date_part t)) (map fdt rows))"
    using assms unfolding pandas_sane_def by blast
  then show "dt_date P (map (\<lambda>r. CDateTime (fdt r)) rows) = Inr (map (\<lambda>r. CDate (date_part (fdt r))) rows)"
    by (simp add: comp_def)
qed

lemma pandas_sane_dates:
  assumes "pandas_sane P"
  shows "\<forall>r\<in>set rows. supported_date (fd r) \<Longrightarrow>
           to_datetime P (map (\<lambda>r. CDate (fd r)) rows) = Inr (map (\<lambda>r. CDateTime (DateTime (fd r) midnight)) rows)"
    and "\<forall>r\<in>set rows. supported_date (date_part (fdt r)) \<Longrightarrow>
           to_datetime P (map (\<lambda>r. CDateTime (fdt r)) rows) = Inr (map (\<lambda>r. CDateTime (fdt r)) rows)"
proof -
  assume a: "\<forall>r\<in>set rows. supported_date (fd r)"
  then have l: "list_all supported_date (map fd rows)" by (simp add: list_all_iff)
  have "to_datetime P (map CDate (map fd rows)) = Inr (map (\<lambda>d. CDateTime (DateTime d midnight)) (map fd rows))"
    using assms l unfolding pandas_sane_def by blast
  then show "to_datetime P (map (\<lambda>r. CDate (fd r)) rows) = Inr (map (\<lambda>r. CDateTime (DateTime (fd r) midnight)) rows)"
    by (simp add: comp_def)
next
  assume a: "\<forall>r\<in>set rows. supported_date (date_part (fdt r))"
  then have l: "list_all (\<lambda>t. supported_date (date_part t)) (map fdt rows)" by (simp add: list_all_iff)
  have "to_datetime P (map CDateTime (map fdt rows)) = Inr (map CDateTime (map fdt rows))"
    using assms l unfolding pandas_sane_def by blast
  then show "to_datetime P (map (\<lambda>r. CDateTime (fdt r)) rows) = Inr (map (\<lambda>r. CDateTime (fdt r)) rows)"
    by (simp add: comp_def)
qed

lemma convert_int:
  "pandas_sane P \<Longrightarrow> convert P ''int'' (map (\<lambda>r. CInt (f r)) rows) = Inr (map (\<lambda>r. CInt (f r)) rows)"
  by (simp add: convert_def pandas_sane_maps)

lemma convert_float:
  "pandas_sane P \<Longrightarrow> convert P ''float'' (map (\<lambda>r. CFloat (f r)) rows) = Inr (map (\<lambda>r. CFloat (f r)) rows)"
  by (simp add: convert_def pandas_sane_maps)

lemma convert_str:
  "pandas_sane P \<Longrightarrow> convert P ''str'' (map (\<lambda>r. CStr (f r)) rows) = Inr (map (\<lambda>r. CStr (f r)) rows)"
  by (simp add: convert_def pandas_sane_maps)

lemma convert_bool:
  "pandas_sane P \<Longrightarrow> convert P ''bool'' (map (\<lambda>r. CBool (f r)) rows) = Inr (map (\<lambda>r. CBool (f r)) rows)"
  by (simp add: convert_def pandas_sane_maps)

lemma convert_time:
  "pandas_sane P \<Longrightarrow> convert P ''time'' (map (\<lambda>r. CTime (f r)) rows) = Inr (map (\<lambda>r. CStr (str_time (f r))) rows)"
  by (simp add: convert_def pandas_sane_maps)

lemma convert_date:
  assumes "pandas_sane P" and "\<forall>r\<in>set rows. supported_date (f r)"
  shows "convert P ''date'' (map (\<lambda>r. CDate (f r)) rows) = Inr (map (\<lambda>r. CDate (f r)) rows)"
  using assms by (simp add: convert_def pandas_sane_dates pandas_sane_maps)

lemma convert_datetime:
  assumes "pandas_sane P" and "\<forall>r\<in>set rows. supported_date (date_part (f r))"
  shows "convert P ''datetime'' (map (\<lambda>r. CDateTime (f r)) rows) = Inr (map (\<lambda>r. CDateTime (f r)) rows)"
  using assms by (simp add: convert_def pandas_sane_dates)

lemma df_get_DataFrame:
  "rows \<noteq> [] \<Longrightarrow> df_get (DataFrame keys rows) col = map_option (\<lambda>f. map f rows) (map_of keys col)"
  by (induction keys) (auto simp: DataFrame_def df_get_def)

lemma df_len_DataFrame [simp]: "df_len (DataFrame keys rows) = length rows"
  by (simp add: DataFrame_def)

lemma df_columns_DataFrame:
  "rows \<noteq> [] \<Longrightarrow> df_columns (DataFrame keys rows) = map fst keys"
  by (simp add: DataFrame_def df_columns_def comp_def case_prod_unfold)

lemma validated_column:
  assumes "map_of SCHEMAS name = Some schema"
    and "rows \<noteq> []"
    and "map_of keys col = Some f"
    and "map_of (required schema) col = Some ty"
    and "convert P ty (map f rows) = Inr c'"
  shows "df_get (fst (validate_table P name (DataFrame keys rows))) col = Some c'"
proof -
  obtain df' r where v: "validate_table P name (DataFrame keys rows) = (df', r)"
    by (cases "validate_table P name (DataFrame keys rows)")
  from validate_table_known(5)[OF assms(1) v, of col] v assms(2-5)
  show ?thesis by (simp add: converted_col_def df_get_DataFrame)
qed

lemma validated_len:
  assumes "map_of SCHEMAS name = Some schema"
  shows "df_len (fst (validate_table P name (DataFrame keys rows))) = length rows"
proof -
  obtain df' r where v: "validate_table P name (DataFrame keys rows) = (df', r)"
    by (cases "validate_table P name (DataFrame keys rows)")
  from validate_table_known(3)[OF assms(1) v] v show ?thesis by simp
qed

text \<open>The validation loop.\<close>

lemma dict_set_append:
  "k \<notin> fst ` set pre \<Longrightarrow> dict_set k v (pre @ (k, w) # rest) = pre @ (k, v) # rest"
  by (induction pre) auto

lemma dict_set_new:
  "k \<notin> fst ` set d \<Longrightarrow> dict_set k v d = d @ [(k, v)]"
  by (induction d) auto

lemma report_copy:
  "row_count rep = Some n \<Longrightarrow>
   \<lparr>row_count = Some n, errors = errors rep, warnings = warnings rep, ok = ok rep\<rparr> = rep"
  by (cases rep) simp

lemma validate_table_row_count:
  assumes "map_of SCHEMAS name = Some schema"
  shows "row_count (snd (validate_table P name df)) = Some (df_len df)"
proof -
  obtain df' r where v: "validate_table P name df = (df', r)"
    by (cases "validate_table P name df")
  from validate_table_known(6)[OF assms(1) v] v show ?thesis by simp
qed

lemma validate_loop_gen:
  assumes "distinct (map fst (pre @ ds))"
    and "fst ` set reps \<inter> fst ` set ds = {}"
    and "\<forall>n\<in>fst ` set ds. map_of SCHEMAS n \<noteq> None"
  shows "for_each (validate_step P) ds (pre @ ds, reps) =
           Inr (pre @ map (\<lambda>(n, df). (n, fst (validate_table P n df))) ds,
                reps @ map (\<lambda>(n, df). (n, snd (validate_table P n df))) ds)"
  using assms
proof (induction ds arbitrary: pre reps)
  case Nil
  then show ?case by simp
next
  case (Cons e ds)
  obtain n df where e: "e = (n, df)" by (cases e)
  from Cons.prems(3) e obtain schema where k: "map_of SCHEMAS n = Some schema" by auto
  obtain cdf rep where v: "validate_table P n df = (cdf, rep)" by (cases "validate_table P n df")
  from validate_table_row_count[OF k, of P df] v have rc: "row_count rep = Some (df_len df)" by simp
  from Cons.prems(1) e have npre: "n \<notin> fst ` set pre" by auto
  from Cons.prems(2) e have nreps: "n \<notin> fst ` set reps" by auto
  have step: "validate_step P e (pre @ e # ds, reps) = Inr ((pre @ [(n, cdf)]) @ ds, reps @ [(n, rep)])"
    unfolding e validate_step_def
    by (simp add: v rc report_copy[OF rc] dict_set_append[OF npre] dict_set_new[OF nreps])
  have d: "distinct (map fst ((pre @ [(n, cdf)]) @ ds))" using Cons.prems(1) e by auto
  have i: "fst ` set (reps @ [(n, rep)]) \<inter> fst ` set ds = {}"
    using Cons.prems(1,2) e by auto
  have kk: "\<forall>n\<in>fst ` set ds. map_of SCHEMAS n \<noteq> None" using Cons.prems(3) by auto
  from Cons.IH[OF d i kk] step e v show ?case by simp
qed

lemma validate_loop:
  assumes "distinct (map fst ds)" and "\<forall>n\<in>fst ` set ds. map_of SCHEMAS n \<noteq> None"
  shows "for_each (validate_step P) ds (ds, []) =
           Inr (map (\<lambda>(n, df). (n, fst (validate_table P n df))) ds,
                map (\<lambda>(n, df). (n, snd (validate_table P n df))) ds)"
  using validate_loop_gen[of "[]" ds "[]" P] assms by simp

lemma datasets_of_names:
  "map fst (datasets_of t) = [''dim_tenants'', ''dim_employees'', ''dim_formulations'',
     ''dim_raw_materials'', ''dim_customers'', ''fact_production_batches'', ''dim_inventory_items'',
     ''fact_inventory_transactions'', ''fact_sales_transactions'', ''fact_ecommerce_orders'',
     ''fact_attendance'', ''dim_accounts'', ''fact_financial_transactions'', ''fact_website_traffic'',
     ''fact_production_analytics'', ''fact_inventory_analytics'', ''fact_audit_logs'']"
  by (simp add: datasets_of_def)

lemma datasets_of_distinct: "distinct (map fst (datasets_of t))"
  unfolding datasets_of_names by simp

lemma datasets_of_known: "\<forall>n\<in>fst ` set (datasets_of t). map_of SCHEMAS n \<noteq> None"
proof -
  have "\<forall>n\<in>set (map fst (datasets_of t)). map_of SCHEMAS n \<noteq> None"
    unfolding datasets_of_names by (simp add: SCHEMAS_def)
  then show ?thesis by simp
qed

lemma generate_demo_data_Inr_iff:
  "generate_demo_data P seed_stream seed g0 = Inr ((datasets, reports), g) \<longleftrightarrow>
     0 \<le> seed \<and> seed < 2 ^ 32 \<and>
     (\<exists>t. generate_tables (seed_stream seed) = Inr (t, g) \<and>
          datasets = validated P t \<and> reports = reports_of P t)"
  unfolding generate_demo_data_def validated_def reports_of_def
  by (cases "generate_tables (seed_stream seed)")
     (auto simp: validate_loop[OF datasets_of_distinct datasets_of_known] not_le)

section \<open>Properties of the generators\<close>

lemma generate_tables_InrD:
  assumes "generate_tables g = Inr (t, g')"
  shows "\<exists>g1 g2 g3 g4 g5 g6 g7 g8 g9 g10 g11 g12 g13 g14 g15.
     dim_tenants t = generate_tenants_data \<and>
     generate_employees_data g = Inr (dim_employees t, g1) \<and>
     generate_formulations_data g1 = Inr (dim_formulations t, g2) \<and>
     generate_raw_materials_data g2 = Inr (dim_raw_materials t, g3) \<and>
     generate_customers_data g3 = Inr (dim_customers t, g4) \<and>
     generate_production_batches (dim_formulations t) (dim_employees t) g4
       = Inr (fact_production_batches t, g5) \<and>
     generate_inventory_items (fact_production_batches t) (dim_formulations t) g5
       = Inr (dim_inventory_items t, g6) \<and>
     generate_inventory_transactions (dim_inventory_items t) (fact_production_batches t)
         (dim_employees t) (dim_formulations t) g6
       = Inr (fact_inventory_transactions t, g7) \<and>
     generate_sales_transactions (dim_inventory_items t) (dim_customers t) (dim_employees t) g7
       = Inr (fact_sales_transactions t, g8) \<and>
     generate_ecommerce_orders (dim_customers t) (fact_sales_transactions t) g8
       = Inr (fact_ecommerce_orders t, g9) \<and>
     generate_attendance_data (dim_employees t) g9 = Inr (fact_attendance t, g10) \<and>
     generate_financial_accounts g10 = Inr (dim_accounts t, g11) \<and>
     generate_financial_transactions (dim_accounts t) (fact_sales_transactions t) g11
       = Inr (fact_financial_transactions t, g12) \<and>
     generate_website_traffic g12 = Inr (fact_website_traffic t, g13) \<and>
     generate_production_analytics (fact_production_batches t) g13
       = Inr (fact_production_analytics t, g14) \<and>
     generate_inventory_analytics (dim_inventory_items t) (fact_inventory_transactions t) g14
       = Inr (fact_inventory_analytics t, g15) \<and>
     generate_audit_logs (dim_tenants t) (dim_employees t) (fact_sales_transactions t) g15
       = Inr (fact_audit_logs t, g')"
  using assms unfolding generate_tables_def
  apply (simp only: bindE_eq_Inr_iff split_paired_Ex case_prod_conv Let_def)
  apply (elim exE conjE)
  apply (simp only: sum.inject prod.inject)
  apply (elim conjE)
  apply hypsubst
  apply (simp only: tables.simps)
  apply blast
  done

lemma for_each_length:
  assumes "for_each body xs (rows, c, g) = Inr (rows', c', g')"
    and "\<And>x rows c g rows' c' g'. x \<in> set xs \<Longrightarrow> body x (rows, c, g) = Inr (rows', c', g') \<Longrightarrow>
           length rows' = Suc (length rows)"
  shows "length rows' = length rows + length xs"
  using assms
proof (induction xs arbitrary: rows c g)
  case Nil
  then show ?case by simp
next
  case (Cons x xs)
  from Cons.prems(1) obtain s1 where b: "body x (rows, c, g) = Inr s1"
    and r: "for_each body xs s1 = Inr (rows', c', g')"
    by (auto simp: bindE_eq_Inr_iff)
  obtain r1 c1 g1 where s1: "s1 = (r1, c1, g1)" by (cases s1)
  have "length r1 = Suc (length rows)" using Cons.prems(2)[OF _ b[unfolded s1]] by simp
  moreover have "length rows' = length r1 + length xs"
  proof (rule Cons.IH[OF r[unfolded s1]])
    fix y rows c g rows' c' g'
    assume "y \<in> set xs" "body y (rows, c, g) = Inr (rows', c', g')"
    then show "length rows' = Suc (length rows)" using Cons.prems(2)[of y] by simp
  qed
  ultimately show ?case by simp
qed

lemma generate_production_batches_length:
  assumes "generate_production_batches formulations_df employees_df g = Inr (batches, g')"
  shows "length batches = 100"
proof -
  from assms obtain fs staff c where
    l: "for_each (\<lambda>i (batches, batch_id, g).
              bindE (batch_row fs staff batch_id g) (\<lambda>(row, g).
              Inr (batches @ [row], batch_id + 1, g)))
            [0..<100] ([], 1, g) = Inr (batches, c, g')"
    unfolding generate_production_batches_def
    apply (simp only: bindE_eq_Inr_iff split_paired_Ex case_prod_conv Let_def)
    apply (elim exE conjE)
    apply (simp only: sum.inject prod.inject)
    done
  have "length batches = length ([] :: batch list) + length [0..<100]"
    by (rule for_each_length[OF l]) (auto simp: bindE_eq_Inr_iff)
  then show ?thesis by simp
qed

lemma map_of_validated_batches:
  "map_of (validated P t) ''fact_production_batches'' =
     Some (fst (validate_table P ''fact_production_batches'' (DataFrame batch_keys (fact_production_batches t))))"
  by (simp add: validated_def datasets_of_def)

lemma map_of_SCHEMAS_batches:
  "map_of SCHEMAS ''fact_production_batches'' = Some \<lparr>required = [
      (''batch_id'', ''str''), (''formulation_id'', ''str''), (''production_date'', ''date''),
      (''planned_quantity'', ''int''), (''actual_quantity'', ''int''),
      (''yield_percentage'', ''float''), (''status'', ''str''), (''equipment_id'', ''str''),
      (''supervisor_id'', ''str''), (''quality_score'', ''float''), (''total_cost'', ''float''),
      (''completion_time_hours'', ''float'')]\<rparr>"
  by (simp add: SCHEMAS_def)


lemma batch_row_yield:
  assumes "batch_row formulations production_staff batch_id g = Inr (b, g')"
  shows "100 \<le> pb_planned_quantity b \<and> pb_planned_quantity b \<le> 1000 \<and>
         \<bar>real_of_int (pb_actual_quantity b) / real_of_int (pb_planned_quantity b) * 100
            - pb_yield_percentage b\<bar> < 1 / 100"
proof -
  from assms obtain p a g1 g2 where p: "randint 100 1000 g1 = Inr (p, g2)"
    and b: "pb_planned_quantity b = p" "pb_actual_quantity b = a"
       "pb_yield_percentage b = py_round (real_of_int a / real_of_int p * 100) 2"
    unfolding batch_row_def
    apply (simp only: bindE_eq_Inr_iff split_paired_Ex case_prod_conv Let_def)
    apply (elim exE conjE)
    apply (simp only: sum.inject prod.inject)
    apply (elim conjE)
    apply hypsubst
    apply simp
    done
  have "\<bar>py_round (real_of_int a / real_of_int p * 100) 2 - real_of_int a / real_of_int p * 100\<bar> \<le> 1 / (2 * 10 ^ 2)"
    by (rule py_round_error)
  then show ?thesis using randint_Inr[OF p] b by (simp add: abs_minus_commute)
qed

lemma generate_production_batches_rows:
  assumes "generate_production_batches formulations_df employees_df g = Inr (batches, g')"
    and "b \<in> set batches"
  shows "100 \<le> pb_planned_quantity b \<and> pb_planned_quantity b \<le> 1000 \<and>
         \<bar>real_of_int (pb_actual_quantity b) / real_of_int (pb_planned_quantity b) * 100
            - pb_yield_percentage b\<bar> < 1 / 100"
proof -
  let ?Q = "\<lambda>b. 100 \<le> pb_planned_quantity b \<and> pb_planned_quantity b \<le> 1000 \<and>
         \<bar>real_of_int (pb_actual_quantity b) / real_of_int (pb_planned_quantity b) * 100
            - pb_yield_percentage b\<bar> < 1 / 100"
  from assms(1) obtain fs staff c where
    l: "for_each (\<lambda>i (batches, batch_id, g).
              bindE (batch_row fs staff batch_id g) (\<lambda>(row, g).
              Inr (batches @ [row], batch_id + 1, g)))
            [0..<100] ([], 1, g) = Inr (batches, c, g')"
    unfolding generate_production_batches_def
    apply (simp only: bindE_eq_Inr_iff split_paired_Ex case_prod_conv Let_def)
    apply (elim exE conjE)
    apply (simp only: sum.inject prod.inject)
    done
  have "\<forall>r\<in>set batches. ?Q r"
  proof (rule for_each_rows[OF l])
    show "\<forall>r\<in>set []. ?Q r" by simp
  next
    fix x :: nat and rows :: "batch list" and c :: int and g :: rng and rows' c' g'
    assume "(case (rows, c, g) of (batches, batch_id, g) \<Rightarrow>
              bindE (batch_row fs staff batch_id g) (\<lambda>(row, g).
              Inr (batches @ [row], batch_id + 1, g))) = Inr (rows', c', g')"
    then obtain row g1 where "batch_row fs staff c g = Inr (row, g1)" and "rows' = rows @ [row]"
      by (auto simp: bindE_eq_Inr_iff)
    with batch_row_yield[of fs staff c g row g1]
    show "\<exists>new. rows' = rows @ new \<and> (\<forall>r\<in>set new. ?Q r)" by auto
  qed
  with assms(2) show ?thesis by blast
qed

lemma sale_row_net:
  assumes "sale_row customers inventory_items sales_staff transaction_id g = Inr (s, g')"
  shows "\<bar>(sa_total_amount s - sa_discount_amount s + sa_tax_amount s) - sa_net_amount s\<bar> < 1 / 100"
proof -
  from assms have b: "sa_net_amount s = py_round (sa_total_amount s - sa_discount_amount s + sa_tax_amount s) 2"
    unfolding sale_row_def
    apply (simp only: bindE_eq_Inr_iff split_paired_Ex case_prod_conv Let_def)
    apply (elim exE conjE)
    apply (simp only: sum.inject prod.inject)
    apply (elim conjE)
    apply hypsubst
    apply simp
    done
  have "\<bar>py_round (sa_total_amount s - sa_discount_amount s + sa_tax_amount s) 2
         - (sa_total_amount s - sa_discount_amount s + sa_tax_amount s)\<bar> \<le> 1 / (2 * 10 ^ 2)"
    by (rule py_round_error)
  then show ?thesis using b by (simp add: abs_minus_commute)
qed

lemma generate_sales_transactions_rows:
  assumes "generate_sales_transactions inventory_items_df customers_df employees_df g = Inr (sales, g')"
    and "s \<in> set sales"
  shows "\<bar>(sa_total_amount s - sa_discount_amount s + sa_tax_amount s) - sa_net_amount s\<bar> < 1 / 100"
proof -
  let ?Q = "\<lambda>s. \<bar>(sa_total_amount s - sa_discount_amount s + sa_tax_amount s) - sa_net_amount s\<bar> < 1 / 100"
  from assms(1) obtain staff c where
    l: "for_each (\<lambda>i (sales, transaction_id, g).
              bindE (sale_row customers_df inventory_items_df staff transaction_id g) (\<lambda>(row, g).
              Inr (sales @ [row], transaction_id + 1, g)))
            [0..<500] ([], 1, g) = Inr (sales, c, g')"
    unfolding generate_sales_transactions_def
    apply (simp only: bindE_eq_Inr_iff split_paired_Ex case_prod_conv Let_def)
    apply (elim exE conjE)
    apply (simp only: sum.inject prod.inject)
    done
  have "\<forall>r\<in>set sales. ?Q r"
  proof (rule for_each_rows[OF l])
    show "\<forall>r\<in>set []. ?Q r" by simp
  next
    fix x :: nat and rows :: "sale list" and c :: int and g :: rng and rows' c' g'
    assume "(case (rows, c, g) of (sales, transaction_id, g) \<Rightarrow>
              bindE (sale_row customers_df inventory_items_df staff transaction_id g) (\<lambda>(row, g).
              Inr (sales @ [row], transaction_id + 1, g))) = Inr (rows', c', g')"
    then obtain row g1 where "sale_row customers_df inventory_items_df staff c g = Inr (row, g1)"
      and "rows' = rows @ [row]"
      by (auto simp: bindE_eq_Inr_iff)
    with sale_row_net[of customers_df inventory_items_df staff c g row g1]
    show "\<exists>new. rows' = rows @ new \<and> (\<forall>r\<in>set new. ?Q r)" by auto
  qed
  with assms(2) show ?thesis by blast
qed

end
